(* ===== verification/Prelude.thy ===== *)
theory Prelude
  imports Complex_Main "HOL-Library.Sublist"
begin

text \<open>
  Shared vocabulary of the croon development.  Python exceptions are values of
  \<open>py_exc\<close>; a computation that may raise returns \<open>'a res\<close> (\<open>Inl\<close> the exception),
  sequenced with \<open>rbind\<close>; a loop over a list with early exit is \<open>res_fold\<close>.
  What a whole process step does to the terminal and to the process is an
  \<open>'a outcome\<close> (normal return, \<open>exit(n)\<close>, or an uncaught exception) paired
  with the lines it printed.  The collection \<open>py_eval\<close> gathers the rules that
  evaluate the model on concrete inputs.
\<close>

named_theorems py_eval "evaluation rules of the Python runtime model"

subsection \<open>Exceptions and results\<close>

text \<open>Keys of a failed lookup: JSON objects have string keys, \<open>phases[0]\<close> uses an int.\<close>

datatype pykey = KStr string | KInt int

datatype py_exc =
    KeyError pykey
  | IndexError
  | TypeError
  | ValueError
  | ZeroDivisionError
  | UnboundLocalError string
  | FileNotFoundError string
  | ConnectionError
  | JSONDecodeError

type_synonym 'a res = "py_exc + 'a"

definition rbind :: "'a res \<Rightarrow> ('a \<Rightarrow> 'b res) \<Rightarrow> 'b res" where
  "rbind m f = (case m of Inl e \<Rightarrow> Inl e | Inr x \<Rightarrow> f x)"

text \<open>A \<open>for\<close> loop whose body may raise: the first exception ends the loop.\<close>

fun res_fold :: "('s \<Rightarrow> 'a \<Rightarrow> 's res) \<Rightarrow> 's \<Rightarrow> 'a list \<Rightarrow> 's res" where
  "res_fold f s [] = Inr s"
| "res_fold f s (x # xs) = rbind (f s x) (\<lambda>s'. res_fold f s' xs)"

subsection \<open>Process outcomes\<close>

text \<open>
  \<open>Exited n\<close> is \<open>exit(n)\<close> (a \<open>SystemExit\<close> that nothing catches);
  \<open>Crashed e\<close> is an exception that reaches the interpreter's top level, which prints a
  traceback and ends the process with status 1.
\<close>

datatype 'a outcome = Done 'a | Exited int | Crashed py_exc

type_synonym 'a proc = "string list \<times> 'a outcome"

fun exit_status :: "'a outcome \<Rightarrow> int option" where
  "exit_status (Done _) = None"
| "exit_status (Exited n) = Some n"
| "exit_status (Crashed _) = Some 1"

definition of_res :: "'a res \<Rightarrow> 'a proc" where
  "of_res r = (case r of Inl e \<Rightarrow> ([], Crashed e) | Inr x \<Rightarrow> ([], Done x))"

text \<open>Sequencing of process steps: output accumulates, a terminated step ends the run.\<close>

definition pbind :: "'a proc \<Rightarrow> ('a \<Rightarrow> 'b proc) \<Rightarrow> 'b proc" where
  "pbind m f = (case m of
      (out, Done x) \<Rightarrow> (let (out', r) = f x in (out @ out', r))
    | (out, Exited n) \<Rightarrow> (out, Exited n)
    | (out, Crashed e) \<Rightarrow> (out, Crashed e))"

text \<open>Every \<open>exit(n)\<close> a step can perform has its status in \<open>S\<close>.\<close>

definition exits_in :: "int set \<Rightarrow> 'a proc \<Rightarrow> bool" where
  "exits_in S p = (\<forall>n. snd p = Exited n \<longrightarrow> n \<in> S)"

text \<open>Every normal end of a step satisfies \<open>P\<close>.\<close>

definition done_in :: "('a \<Rightarrow> bool) \<Rightarrow> 'a proc \<Rightarrow> bool" where
  "done_in P p = (\<forall>v. snd p = Done v \<longrightarrow> P v)"

subsection \<open>Lemmas on results and loops\<close>

lemma rbind_Inl [simp, py_eval]: "rbind (Inl e) f = Inl e"
  by (simp add: rbind_def)

lemma rbind_Inr [simp, py_eval]: "rbind (Inr x) f = f x"
  by (simp add: rbind_def)

lemma rbind_eq_Inr [simp]: "rbind m f = Inr y \<longleftrightarrow> (\<exists>x. m = Inr x \<and> f x = Inr y)"
  by (cases m) auto

lemma rbind_eq_Inl: "rbind m f = Inl e \<longleftrightarrow> m = Inl e \<or> (\<exists>x. m = Inr x \<and> f x = Inl e)"
  by (cases m) auto

lemma res_fold_append:
  "res_fold f s (xs @ ys) = rbind (res_fold f s xs) (\<lambda>s'. res_fold f s' ys)"
  by (induction xs arbitrary: s) (auto simp: rbind_def split: sum.splits)

text \<open>When no step raises, the loop is the plain fold of the steps.\<close>

lemma res_fold_total:
  assumes "\<And>s x. x \<in> set xs \<Longrightarrow> f s x = Inr (g s x)"
  shows "res_fold f s xs = Inr (fold (\<lambda>x s. g s x) xs s)"
  using assms by (induction xs arbitrary: s) auto

text \<open>A step that raises on some element makes the loop raise, if the earlier steps succeed.\<close>

lemma res_fold_Inl_step:
  assumes "res_fold f s xs = Inr s'" and "f s' x = Inl e"
  shows "res_fold f s (xs @ x # ys) = Inl e"
  using assms by (simp add: res_fold_append)

lemma of_res_simps [simp, py_eval]:
  "of_res (Inl e) = ([], Crashed e)" "of_res (Inr x) = ([], Done x)"
  by (simp_all add: of_res_def)

lemma pbind_simps [simp, py_eval]:
  "pbind (out, Done x) f = (out @ fst (f x), snd (f x))"
  "pbind (out, Exited n) f = (out, Exited n)"
  "pbind (out, Crashed e) f = (out, Crashed e)"
  by (simp_all add: pbind_def split: prod.splits)

lemma pbind_exits:
  "exits_in S p \<Longrightarrow> (\<And>v. exits_in S (f v)) \<Longrightarrow> exits_in S (pbind p f)"
  by (cases p rule: prod.exhaust, rename_tac out r, case_tac r) (auto simp: exits_in_def)

lemma exits_in_simps [simp]:
  "exits_in S (out, Done v)" "exits_in S (out, Crashed e)" "exits_in S (out, Exited n) = (n \<in> S)"
  "exits_in S (of_res r)"
  by (auto simp: exits_in_def of_res_def split: sum.splits)

lemma exits_in_case_prod: "(\<And>a b. exits_in S (f a b)) \<Longrightarrow> exits_in S (case x of (a, b) \<Rightarrow> f a b)"
  by (cases x) simp

lemma pbind_Done:
  "snd (pbind p f) = Done w \<Longrightarrow> \<exists>v. snd p = Done v \<and> snd (f v) = Done w"
  by (cases p rule: prod.exhaust, rename_tac out r, case_tac r) auto

lemma pbind_done_in:
  "(\<And>v. snd p = Done v \<Longrightarrow> done_in P (f v)) \<Longrightarrow> done_in P (pbind p f)"
  by (cases p rule: prod.exhaust, rename_tac out r, case_tac r) (auto simp: done_in_def)

lemma done_in_simps [simp]:
  "done_in P (out, Done v) = P v" "done_in P (out, Exited n)" "done_in P (out, Crashed e)"
  by (simp_all add: done_in_def)

lemma done_in_case_prod: "(\<And>a b. x = (a, b) \<Longrightarrow> done_in P (f a b)) \<Longrightarrow> done_in P (case x of (a, b) \<Rightarrow> f a b)"
  by (cases x) simp

lemma of_res_Done [simp]: "snd (of_res r) = Done v \<longleftrightarrow> r = Inr v"
  by (simp add: of_res_def split: sum.splits)

subsection \<open>Lists\<close>

lemma take_append_le: "n \<le> length xs \<Longrightarrow> take n (xs @ ys) = take n xs"
  by simp

lemma nat_int_plus_one [simp]: "nat (int n + 1) = Suc n"
  by arith

subsection \<open>Real arithmetic\<close>

lemma mult_neg_iff_pos_factor: "0 < (f::real) \<Longrightarrow> (y * f < 0) = (y < 0)"
  by (auto simp: mult_less_0_iff)

lemma mult_neg_iff_neg_factor: "(f::real) < 1 \<Longrightarrow> (y * (f - 1) < 0) = (0 < y)"
  by (auto simp: mult_less_0_iff)

end
