(* ===== verification/PyValue.thy ===== *)
theory PyValue
  imports Prelude
begin

text \<open>
  The Python values croon handles.  A Python \<open>float\<close> is \<open>pyfloat\<close>: a finite value
  (as an exact real; rounding to the nearest double is not modelled, nor is the sign
  of zero), or one of \<open>inf\<close>, \<open>-inf\<close>, \<open>nan\<close>, which \<open>float()\<close> accepts from
  the command line.  \<open>float_rem\<close> is CPython's \<open>float_rem\<close> (the \<open>%\<close> operator of
  Objects/floatobject.c); \<open>floor_mod\<close> is its mathematical reference.  A parsed JSON
  document is a \<open>pyval\<close>, with Python's subscription (\<open>py_getitem_str\<close>,
  \<open>py_getitem_int\<close>) and iteration (\<open>py_iter\<close>) and the exceptions they raise.
\<close>

subsection \<open>Floats\<close>

datatype pyfloat = Fin real | PInf | NInf | NaN

text \<open>Comparison of a float with a finite literal, as in \<open>lat > 90.0\<close>: false on \<open>nan\<close>.\<close>

fun pf_gt :: "pyfloat \<Rightarrow> real \<Rightarrow> bool" where
  "pf_gt (Fin x) c = (c < x)"
| "pf_gt PInf c = True"
| "pf_gt NInf c = False"
| "pf_gt NaN c = False"

fun pf_lt :: "pyfloat \<Rightarrow> real \<Rightarrow> bool" where
  "pf_lt (Fin x) c = (x < c)"
| "pf_lt PInf c = False"
| "pf_lt NInf c = True"
| "pf_lt NaN c = False"

text \<open>C's \<open>fmod\<close>: the remainder of the quotient truncated towards zero (exact in IEEE).\<close>

definition trunc_real :: "real \<Rightarrow> int" where
  "trunc_real q = (if 0 \<le> q then \<lfloor>q\<rfloor> else \<lceil>q\<rceil>)"

definition fmod_real :: "real \<Rightarrow> real \<Rightarrow> real" where
  "fmod_real x y = x - of_int (trunc_real (x / y)) * y"

text \<open>
  CPython, after the \<open>ZeroDivisionError\<close> check:
  \<^verbatim>\<open>mod = fmod(vx, wx);
if (mod) { if ((wx < 0) != (mod < 0)) mod += wx; }
else mod = copysign(0.0, wx);\<close>
  \<open>fmod\<close> of an infinite or \<open>nan\<close> dividend, or by \<open>nan\<close>, is \<open>nan\<close> (which is
  truthy and not negative); \<open>fmod(x, \<plusminus>inf) = x\<close>.
\<close>

fun float_rem :: "pyfloat \<Rightarrow> pyfloat \<Rightarrow> pyfloat" where
  "float_rem (Fin x) (Fin y) =
     (let m = fmod_real x y in
      if m \<noteq> 0 then (if (y < 0) \<noteq> (m < 0) then Fin (m + y) else Fin m) else Fin 0)"
| "float_rem (Fin x) PInf = (if x < 0 then PInf else Fin x)"
| "float_rem (Fin x) NInf = (if 0 < x then NInf else Fin x)"
| "float_rem (Fin x) NaN = NaN"
| "float_rem PInf y = NaN"
| "float_rem NInf y = NaN"
| "float_rem NaN y = NaN"

text \<open>The \<open>%\<close> operator on floats.\<close>

definition py_float_mod :: "pyfloat \<Rightarrow> pyfloat \<Rightarrow> pyfloat res" where
  "py_float_mod x y = (if y = Fin 0 then Inl ZeroDivisionError else Inr (float_rem x y))"

text \<open>Python's documented meaning of \<open>%\<close>: \<open>x - floor(x / y) * y\<close>.\<close>

definition floor_mod :: "real \<Rightarrow> real \<Rightarrow> real" where
  "floor_mod x y = x - of_int \<lfloor>x / y\<rfloor> * y"

subsection \<open>JSON values\<close>

text \<open>
  What \<open>json.loads\<close> returns: \<open>None\<close>, booleans, ints, floats, strings, lists and dicts.
  A dict is the list of its items in insertion order; \<open>json.loads\<close> keeps the last of
  duplicate keys, so the dicts it builds have distinct keys (\<open>json_wf\<close>) and lookup by
  \<open>map_of\<close> finds the one entry.
\<close>

datatype pyval =
    PNone
  | PBool bool
  | PInt int
  | PFloat pyfloat
  | PStr string
  | PList "pyval list"
  | PDict "(string \<times> pyval) list"

fun json_wf :: "pyval \<Rightarrow> bool" where
  "json_wf (PList xs) = (\<forall>x \<in> set xs. json_wf x)"
| "json_wf (PDict kvs) = (distinct (map fst kvs) \<and> (\<forall>kv \<in> set kvs. json_wf (snd kv)))"
| "json_wf _ = True"

text \<open>\<open>v[k]\<close> for a string key: \<open>KeyError\<close> on a dict without \<open>k\<close>; any other value
  raises \<open>TypeError\<close> (lists and strings want integer indices, scalars are not subscriptable).\<close>

fun py_getitem_str :: "pyval \<Rightarrow> string \<Rightarrow> pyval res" where
  "py_getitem_str (PDict kvs) k =
     (case map_of kvs k of None \<Rightarrow> Inl (KeyError (KStr k)) | Some v \<Rightarrow> Inr v)"
| "py_getitem_str _ k = Inl TypeError"

text \<open>Python list indexing: negative indices count from the end.\<close>

definition py_index :: "'a list \<Rightarrow> int \<Rightarrow> 'a res" where
  "py_index xs i =
     (let k = (if 0 \<le> i then i else i + int (length xs))
      in if k < 0 \<or> int (length xs) \<le> k then Inl IndexError else Inr (xs ! nat k))"

text \<open>\<open>v[i]\<close> for an int \<open>i\<close>: a list or a string is indexed; a JSON dict has only
  string keys, so an int key is missing; anything else is not subscriptable.\<close>

fun py_getitem_int :: "pyval \<Rightarrow> int \<Rightarrow> pyval res" where
  "py_getitem_int (PList xs) i = py_index xs i"
| "py_getitem_int (PStr s) i = rbind (py_index s i) (\<lambda>c. Inr (PStr [c]))"
| "py_getitem_int (PDict kvs) i = Inl (KeyError (KInt i))"
| "py_getitem_int _ i = Inl TypeError"

text \<open>\<open>for x in v\<close>: a list yields its elements, a dict its keys, a string its
  one-character strings; the other values are not iterable.\<close>

fun py_iter :: "pyval \<Rightarrow> pyval list res" where
  "py_iter (PList xs) = Inr xs"
| "py_iter (PDict kvs) = Inr (map (PStr \<circ> fst) kvs)"
| "py_iter (PStr s) = Inr (map (\<lambda>c. PStr [c]) s)"
| "py_iter _ = Inl TypeError"

subsection \<open>Lemmas on floats\<close>

lemmas pyvalue_eval [py_eval] =
  py_getitem_str.simps py_getitem_int.simps py_iter.simps py_index_def
  float_rem.simps pf_gt.simps pf_lt.simps fmod_real_def trunc_real_def


lemma floor_mod_frac: "y \<noteq> 0 \<Longrightarrow> floor_mod x y = y * frac (x / y)"
  by (simp add: floor_mod_def frac_def algebra_simps)

lemma fmod_real_frac:
  assumes "y \<noteq> 0"
  shows "fmod_real x y =
           (if 0 \<le> x / y \<or> x / y \<in> \<int> then y * frac (x / y) else y * (frac (x / y) - 1))"
proof -
  have q: "x = (x / y) * y" using assms by simp
  have "\<lceil>x / y\<rceil> = (if x / y \<in> \<int> then \<lfloor>x / y\<rfloor> else \<lfloor>x / y\<rfloor> + 1)"
    by (simp add: ceiling_altdef frac_eq_0_iff[symmetric] frac_def)
  then show ?thesis
    by (subst q) (auto simp: fmod_real_def trunc_real_def frac_def algebra_simps)
qed

lemma float_rem_floor_mod:
  assumes "y \<noteq> 0"
  shows "float_rem (Fin x) (Fin y) = Fin (floor_mod x y)"
proof -
  let ?f = "frac (x / y)"
  have f0: "0 \<le> ?f" and f1: "?f < 1" by (simp_all add: frac_lt_1)
  show ?thesis
  proof (cases "x / y \<in> \<int>")
    case True
    then have "?f = 0" by simp
    with True assms show ?thesis by (simp add: fmod_real_frac floor_mod_frac Let_def)
  next
    case False
    then have fpos: "0 < ?f" by simp
    show ?thesis
    proof (cases "0 \<le> x / y")
      case True
      have "(y * ?f < 0) = (y < 0)" using fpos by (rule mult_neg_iff_pos_factor)
      with True False assms fpos show ?thesis
        by (simp add: fmod_real_frac floor_mod_frac Let_def)
    next
      case neg: False
      have "(y * (?f - 1) < 0) = (0 < y)" using f1 by (rule mult_neg_iff_neg_factor)
      moreover have "y * (?f - 1) + y = y * ?f" by (simp add: algebra_simps)
      ultimately show ?thesis using neg False assms fpos f1
        by (auto simp: fmod_real_frac floor_mod_frac Let_def)
    qed
  qed
qed

lemma floor_mod_neg_bounds: "y < 0 \<Longrightarrow> y < floor_mod x y \<and> floor_mod x y \<le> 0"
  using frac_lt_1[of "x / y"] frac_ge_0[of "x / y"]
  by (simp add: floor_mod_frac mult_nonpos_nonneg mult_less_cancel_left_neg[of y _ 1, simplified])

lemma floor_mod_pos_bounds: "0 < y \<Longrightarrow> 0 \<le> floor_mod x y \<and> floor_mod x y < y"
  using frac_lt_1[of "x / y"] frac_ge_0[of "x / y"]
  by (simp add: floor_mod_frac)

end
