(* ===== verification/Coords.thy ===== *)
theory Coords
  imports PyValue
begin

text \<open>
  The coordinate normaliser \<open>wrap_coords\<close> (src/main.py, lines 93-106).  Each axis
  is treated by the same three-way test: above the bound \<open>b\<close> the value becomes
  \<open>x % -b\<close>, below \<open>-b\<close> it becomes \<open>x % b\<close>, otherwise it is kept; latitude uses
  \<open>b = 90\<close>, longitude \<open>b = 180\<close>.  The lemmas give the exact result on every
  branch, the range of the result for finite input, the fixed points, and what happens
  to \<open>inf\<close> and \<open>nan\<close>, which \<open>float()\<close> accepts and which escape the range.
\<close>

subsection \<open>Definitions\<close>

text \<open>One axis of \<open>wrap_coords\<close>, e.g. for latitude
  \<^verbatim>\<open>if lat > 90.0: lat %= -90.0
elif lat < -90.0: lat %= 90.0\<close>
  The divisors are non-zero literals, so \<open>%\<close> is \<open>float_rem\<close> (no \<open>ZeroDivisionError\<close>).\<close>

definition wrap_axis :: "real \<Rightarrow> pyfloat \<Rightarrow> pyfloat" where
  "wrap_axis b x =
     (if pf_gt x b then float_rem x (Fin (- b))
      else if pf_lt x (- b) then float_rem x (Fin b)
      else x)"

definition wrap_coords :: "pyfloat \<Rightarrow> pyfloat \<Rightarrow> pyfloat \<times> pyfloat" where
  "wrap_coords lat long = (wrap_axis 90 lat, wrap_axis 180 long)"

text \<open>A finite value within \<open>[-b, b]\<close>.\<close>

fun in_axis :: "real \<Rightarrow> pyfloat \<Rightarrow> bool" where
  "in_axis b (Fin x) = (- b \<le> x \<and> x \<le> b)"
| "in_axis b _ = False"

definition coords_ok :: "pyfloat \<times> pyfloat \<Rightarrow> bool" where
  "coords_ok c = (in_axis 90 (fst c) \<and> in_axis 180 (snd c))"

fun is_finite :: "pyfloat \<Rightarrow> bool" where
  "is_finite (Fin _) = True"
| "is_finite _ = False"

subsection \<open>Behaviour of one axis\<close>

lemma wrap_axis_above:
  "0 < b \<Longrightarrow> b < x \<Longrightarrow> wrap_axis b (Fin x) = Fin (floor_mod x (- b))"
  by (simp add: wrap_axis_def float_rem_floor_mod del: float_rem.simps)

lemma wrap_axis_below:
  "0 < b \<Longrightarrow> x < - b \<Longrightarrow> wrap_axis b (Fin x) = Fin (floor_mod x b)"
  by (simp add: wrap_axis_def float_rem_floor_mod del: float_rem.simps)

lemma wrap_axis_inside:
  "- b \<le> x \<Longrightarrow> x \<le> b \<Longrightarrow> wrap_axis b (Fin x) = Fin x"
  by (simp add: wrap_axis_def)

lemma wrap_axis_nonfinite:
  "wrap_axis b PInf = NaN" "wrap_axis b NInf = NaN" "wrap_axis b NaN = NaN"
  by (simp_all add: wrap_axis_def)

lemma wrap_axis_in_axis:
  assumes "0 < b"
  shows "in_axis b (wrap_axis b (Fin x))"
proof -
  consider "b < x" | "x < - b" | "- b \<le> x \<and> x \<le> b" by linarith
  then show ?thesis
  proof cases
    case 1
    with assms floor_mod_neg_bounds[of "- b" x] show ?thesis by (simp add: wrap_axis_above)
  next
    case 2
    with assms floor_mod_pos_bounds[of b x] show ?thesis by (simp add: wrap_axis_below)
  next
    case 3
    then show ?thesis by (simp add: wrap_axis_inside)
  qed
qed

lemma wrap_axis_fixed: "in_axis b x \<Longrightarrow> wrap_axis b x = x"
  by (cases x) (auto simp: wrap_axis_inside)

lemma floor_mod_neg90_second_band:
  "90 < x \<Longrightarrow> x < 180 \<Longrightarrow> floor_mod x (-90) = x - 180"
proof -
  assume a: "90 < x" "x < 180"
  then have "\<lfloor>x / -90\<rfloor> = -2" by (simp add: floor_eq_iff field_simps)
  then show ?thesis by (simp add: floor_mod_def)
qed

subsection \<open>Properties of the normaliser\<close>

text \<open>C3 (bounds).  For finite input the normalised pair lies in
  \<open>[-90, 90] \<times> [-180, 180]\<close>, whichever branch each axis takes.\<close>

theorem wrap_coords_in_range:
  assumes "is_finite lat" and "is_finite long"
  shows "coords_ok (wrap_coords lat long)"
  using assms wrap_axis_in_axis[of 90] wrap_axis_in_axis[of 180]
  by (cases lat; cases long) (simp_all add: coords_ok_def wrap_coords_def)

theorem wrap_coords_in_range_witness:
  "is_finite (Fin 95) \<and> is_finite (Fin (-200)) \<and> coords_ok (wrap_coords (Fin 95) (Fin (-200)))"
  using wrap_coords_in_range[of "Fin 95" "Fin (-200)"] by simp

text \<open>C9 (functional).  On finite input each axis is Python's modulo by the negated
  bound above the range, by the bound below it, and unchanged inside it.\<close>

theorem wrap_coords_exact:
  "wrap_coords (Fin lat) (Fin long) =
     (Fin (if 90 < lat then floor_mod lat (-90) else if lat < -90 then floor_mod lat 90 else lat),
      Fin (if 180 < long then floor_mod long (-180) else if long < -180 then floor_mod long 180 else long))"
  by (simp add: wrap_coords_def wrap_axis_def float_rem_floor_mod del: float_rem.simps)

text \<open>C10 (functional).  Coordinates already in range are returned unchanged (so the
  defaults and any valid input pass through, and normalising twice is normalising once).\<close>

theorem wrap_coords_fixed:
  assumes "coords_ok c"
  shows "wrap_coords (fst c) (snd c) = c"
  using assms by (simp add: coords_ok_def wrap_coords_def wrap_axis_fixed)

theorem wrap_coords_fixed_witness:
  "coords_ok (Fin (421/10), Fin (-759/10)) \<and> wrap_coords (Fin (421/10)) (Fin (-759/10)) = (Fin (421/10), Fin (-759/10))"
  using wrap_coords_fixed[of "(Fin (421/10), Fin (-759/10))"] by (simp add: coords_ok_def)

text \<open>C15 (bounds).  The range promise fails for the non-finite values \<open>float()\<close>
  accepts: \<open>nan\<close> passes both tests unchanged and \<open>inf % b\<close> is \<open>nan\<close>, so an
  infinite or \<open>nan\<close> coordinate leaves the normaliser out of range.\<close>

theorem wrap_coords_nonfinite:
  assumes "\<not> is_finite lat \<or> \<not> is_finite long"
  shows "\<not> coords_ok (wrap_coords lat long)"
  using assms by (cases lat; cases long) (simp_all add: coords_ok_def wrap_coords_def wrap_axis_nonfinite)

theorem wrap_coords_nonfinite_witness:
  "\<not> is_finite NaN \<and> \<not> coords_ok (wrap_coords NaN (Fin 0))"
  using wrap_coords_nonfinite[of NaN "Fin 0"] by simp

text \<open>C16 (functional).  A latitude a little past the north pole, in \<open>(90, 180)\<close>, is
  sent to \<open>lat - 180\<close>, a southern latitude, and not reflected to \<open>180 - lat\<close>.\<close>

theorem wrap_coords_lat_flips_hemisphere:
  assumes "90 < lat" and "lat < 180"
  shows "fst (wrap_coords (Fin lat) long) = Fin (lat - 180)"
  using assms by (simp add: wrap_coords_def wrap_axis_above floor_mod_neg90_second_band)

theorem wrap_coords_lat_flips_hemisphere_witness:
  "90 < (95::real) \<and> (95::real) < 180 \<and> fst (wrap_coords (Fin 95) (Fin 0)) = Fin (-85)"
  using wrap_coords_lat_flips_hemisphere[of 95 "Fin 0"] by simp

end
