(* ===== verification/PyStr.thy ===== *)
theory PyStr
  imports Prelude
begin

text \<open>
  The parts of Python's \<open>str\<close> and \<open>list\<close> API that croon calls, over \<open>string\<close>
  (a character list; croon's inputs are ASCII, so one \<open>char\<close> is one code point):
  the substring test \<open>sep in s\<close> (\<open>py_contains\<close>), \<open>s.split(sep)\<close>
  (\<open>py_split\<close>, CPython's left-to-right scan for non-overlapping occurrences),
  \<open>sep.join(xs)\<close> (\<open>py_join\<close>), \<open>list.index\<close> (\<open>first_index\<close>) and the
  newline translation of a file opened in text mode (\<open>universal_newlines\<close>).
  The main lemma is the round trip \<open>py_split sep (py_join sep xs) = Inr xs\<close> when no
  piece lets the separator start inside it (\<open>sep_free\<close>).
\<close>

subsection \<open>Definitions\<close>

text \<open>\<open>sep in s\<close>: \<open>sep\<close> is a prefix of some suffix of \<open>s\<close>.\<close>

fun py_contains :: "'a list \<Rightarrow> 'a list \<Rightarrow> bool" where
  "py_contains sep [] = (sep = [])"
| "py_contains sep (c # cs) = (take (length sep) (c # cs) = sep \<or> py_contains sep cs)"

text \<open>
  \<open>s.split(sep)\<close>: scan \<open>s\<close>; where \<open>sep\<close> starts, close the current piece and
  skip \<open>sep\<close>; otherwise move one character into the piece.  The end of \<open>s\<close> closes
  the last piece, so the result is never empty.
\<close>

function split_aux :: "'a list \<Rightarrow> 'a list \<Rightarrow> 'a list \<Rightarrow> 'a list list" where
  "split_aux sep acc s =
     (if s = [] then [acc]
      else if sep \<noteq> [] \<and> take (length sep) s = sep
        then acc # split_aux sep [] (drop (length sep) s)
      else split_aux sep (acc @ [hd s]) (tl s))"
  by pat_completeness auto
termination
  by (relation "measure (\<lambda>(sep, acc, s). length s)") auto

text \<open>\<open>str.split\<close> with an empty separator raises \<open>ValueError: empty separator\<close>.\<close>

definition py_split :: "'a list \<Rightarrow> 'a list \<Rightarrow> 'a list list res" where
  "py_split sep s = (if sep = [] then Inl ValueError else Inr (split_aux sep [] s))"

fun py_join :: "'a list \<Rightarrow> 'a list list \<Rightarrow> 'a list" where
  "py_join sep [] = []"
| "py_join sep [x] = x"
| "py_join sep (x # xs) = x @ sep @ py_join sep xs"

text \<open>The position \<open>list.index\<close> returns, for an element of the list.\<close>

fun first_index :: "'a list \<Rightarrow> 'a \<Rightarrow> nat" where
  "first_index [] x = 0"
| "first_index (y # ys) x = (if y = x then 0 else Suc (first_index ys x))"

text \<open>
  Reading a file opened with \<open>open(path, "r")\<close>: universal newlines mode turns
  \<open>\r\n\<close> and a lone \<open>\r\<close> into \<open>\n\<close>.
\<close>

fun universal_newlines :: "string \<Rightarrow> string" where
  "universal_newlines [] = []"
| "universal_newlines [c] = (if c = CHR 0x0D then [CHR 0x0A] else [c])"
| "universal_newlines (c # d # cs) =
     (if c = CHR 0x0D
      then CHR 0x0A # universal_newlines (if d = CHR 0x0A then cs else d # cs)
      else c # universal_newlines (d # cs))"

text \<open>A piece that \<open>split\<close> gives back unchanged when it is followed by \<open>sep\<close>:
  no occurrence of \<open>sep\<close> starts inside it.\<close>

definition sep_free :: "'a list \<Rightarrow> 'a list \<Rightarrow> bool" where
  "sep_free sep x = (\<not> py_contains sep (x @ butlast sep))"

subsection \<open>Substrings\<close>

lemma prefix_take_eq: "prefix sep s = (take (length sep) s = sep)"
proof
  assume "prefix sep s"
  then show "take (length sep) s = sep" by (auto simp: prefix_def)
next
  assume "take (length sep) s = sep"
  then show "prefix sep s" using take_is_prefix[of "length sep" s] by simp
qed

lemma py_contains_sublist: "py_contains sep s = sublist sep s"
  by (induction s) (simp_all add: sublist_Cons_right prefix_take_eq)

lemma py_contains_append_mono:
  "py_contains sep s \<Longrightarrow> py_contains sep (u @ s @ v)"
proof -
  assume "py_contains sep s"
  then have "sublist sep s" by (simp add: py_contains_sublist)
  then have "sublist sep (u @ s @ v)" by (rule sublist_order.order.trans) simp
  then show ?thesis by (simp add: py_contains_sublist)
qed
lemma sep_free_Cons: "sep_free sep (c # x) \<Longrightarrow> sep_free sep x"
  unfolding sep_free_def using py_contains_append_mono[of sep "x @ butlast sep" "[c]" "[]"]
  by auto

text \<open>The first \<open>length sep\<close> characters of \<open>c # x @ sep @ r\<close> lie in \<open>c # x @ butlast sep\<close>.\<close>

lemma take_sep_inside:
  assumes "sep \<noteq> []"
  shows "take (length sep) (c # x @ sep @ r) = take (length sep) (c # x @ butlast sep)"
proof -
  have "sep = butlast sep @ [last sep]" using assms by simp
  then have e: "c # x @ sep @ r = (c # x @ butlast sep) @ (last sep # r)"
    by (metis append.assoc append_Cons append_Cons append_Nil)
  have "length sep \<le> length (c # x @ butlast sep)" using assms by simp
  then have "take (length sep) ((c # x @ butlast sep) @ (last sep # r)) =
      take (length sep) (c # x @ butlast sep)" by (rule take_append_le)
  then show ?thesis by (simp only: e)
qed

lemma prefix_sep_contains:
  "take (length sep) s = sep \<Longrightarrow> py_contains sep s"
  by (cases s) auto

subsection \<open>Splitting\<close>

declare split_aux.simps [simp del]

lemma split_aux_Nil [simp]: "split_aux sep acc [] = [acc]"
  by (subst split_aux.simps) simp

lemma split_aux_sep:
  "sep \<noteq> [] \<Longrightarrow> split_aux sep acc (sep @ r) = acc # split_aux sep [] r"
  by (subst split_aux.simps) simp

lemma split_aux_Cons:
  "take (length sep) (c # s) \<noteq> sep \<Longrightarrow> split_aux sep acc (c # s) = split_aux sep (acc @ [c]) s"
  by (subst split_aux.simps) simp

lemma split_aux_piece:
  assumes "sep \<noteq> []" and "sep_free sep x"
  shows "split_aux sep acc (x @ sep @ r) = (acc @ x) # split_aux sep [] r"
  using assms(2)
proof (induction x arbitrary: acc)
  case Nil
  then show ?case using assms(1) by (simp add: split_aux_sep)
next
  case (Cons c x)
  have "\<not> py_contains sep (c # x @ butlast sep)"
    using Cons.prems by (simp only: sep_free_def append_Cons not_False_eq_True)
  then have "take (length sep) (c # x @ butlast sep) \<noteq> sep"
    by (blast dest: prefix_sep_contains)
  then have "take (length sep) (c # x @ sep @ r) \<noteq> sep"
    by (simp only: take_sep_inside[OF assms(1)] not_False_eq_True)
  then have "split_aux sep acc (c # x @ sep @ r) = split_aux sep (acc @ [c]) (x @ sep @ r)"
    by (rule split_aux_Cons)
  with Cons.IH[OF sep_free_Cons[OF Cons.prems]] show ?case by simp
qed

lemma split_aux_last:
  assumes "\<not> py_contains sep x"
  shows "split_aux sep acc x = [acc @ x]"
  using assms
proof (induction x arbitrary: acc)
  case Nil
  then show ?case by simp
next
  case (Cons c x)
  then have "take (length sep) (c # x) \<noteq> sep" and "\<not> py_contains sep x" by auto
  then show ?case using Cons.IH by (simp add: split_aux_Cons)
qed

lemma sep_free_not_contains: "sep_free sep x \<Longrightarrow> \<not> py_contains sep x"
  unfolding sep_free_def using py_contains_append_mono[of sep x "[]" "butlast sep"] by auto

lemma split_aux_join:
  "sep \<noteq> [] \<Longrightarrow> xs \<noteq> [] \<Longrightarrow> \<forall>x \<in> set xs. sep_free sep x \<Longrightarrow>
   split_aux sep [] (py_join sep xs) = xs"
proof (induction sep xs rule: py_join.induct)
  case (2 sep x)
  then have "\<not> py_contains sep x" by (simp add: sep_free_not_contains)
  then show ?case by (simp add: split_aux_last)
next
  case (3 sep x y ys)
  have sf: "sep_free sep x" using "3.prems"(3) by simp
  have ih: "split_aux sep [] (py_join sep (y # ys)) = y # ys"
    using "3.prems" by (intro "3.IH") simp_all
  have "split_aux sep [] (py_join sep (x # y # ys)) = split_aux sep [] (x @ sep @ py_join sep (y # ys))"
    by (simp only: py_join.simps)
  also have "\<dots> = x # y # ys"
    by (simp only: split_aux_piece[OF "3.prems"(1) sf] ih append_Nil)
  finally show ?case .
qed simp

text \<open>Round trip: splitting what \<open>join\<close> glued gives the pieces back.\<close>

lemma split_join:
  "sep \<noteq> [] \<Longrightarrow> xs \<noteq> [] \<Longrightarrow> \<forall>x \<in> set xs. sep_free sep x \<Longrightarrow>
   py_split sep (py_join sep xs) = Inr xs"
  by (simp add: py_split_def split_aux_join)

subsection \<open>List index and newlines\<close>

lemma first_index_nth: "x \<in> set xs \<Longrightarrow> first_index xs x < length xs \<and> xs ! first_index xs x = x"
  by (induction xs) auto

lemma first_index_distinct: "distinct xs \<Longrightarrow> i < length xs \<Longrightarrow> first_index xs (xs ! i) = i"
proof (induction xs arbitrary: i)
  case Nil
  then show ?case by simp
next
  case (Cons y ys)
  show ?case
  proof (cases i)
    case 0
    then show ?thesis by simp
  next
    case (Suc j)
    with Cons.prems have "j < length ys" and "y \<noteq> ys ! j" and "distinct ys"
      by (auto simp: nth_mem)
    with Suc Cons.IH show ?thesis by simp
  qed
qed
lemma universal_newlines_id: "CHR 0x0D \<notin> set s \<Longrightarrow> universal_newlines s = s"
proof (induction s rule: universal_newlines.induct)
  case (3 c d cs)
  then have "c \<noteq> CHR 0x0D" by auto
  with 3 show ?case by simp
qed auto
lemma first_index_append_notin:
  "x \<notin> set pre \<Longrightarrow> first_index (pre @ x # post) x = length pre"
  by (induction pre) auto

lemma py_contains_single: "py_contains [c] s = (c \<in> set s)"
  by (induction s) auto

lemma sep_free_single [simp]: "sep_free [c] x = (c \<notin> set x)"
  by (simp add: sep_free_def py_contains_single)

lemma set_py_join: "set (py_join sep xs) \<subseteq> set sep \<union> (\<Union>x \<in> set xs. set x)"
  by (induction sep xs rule: py_join.induct) auto

end
