(* ===== verification/PyFloatStr.thy ===== *)
theory PyFloatStr
  imports PyValue PyStr
begin

text \<open>
  Python's \<open>float(s)\<close> for a \<open>str\<close> argument and \<open>str(n)\<close> for a natural number.
  \<open>py_float\<close> follows CPython's \<open>PyFloat_FromString\<close>: Unicode spaces count as
  spaces; \<open>_Py_string_to_number_with_underscores\<close> allows an underscore only between two
  digits and removes it (\<open>drop_underscores\<close>); \<open>float_from_string_inner\<close> strips
  leading and trailing whitespace and requires \<open>PyOS_string_to_double\<close> to consume the
  rest: an optional sign, then \<open>inf\<close>, \<open>infinity\<close> or \<open>nan\<close> in any case, or a
  decimal mantissa with an optional exponent.  A value too large for a double becomes
  \<open>\<plusminus>inf\<close> (\<open>to_pyfloat\<close>); other rounding is not modelled.  \<open>None\<close> is the
  \<open>ValueError\<close>.  The lemmas show that \<open>float\<close> reads back the decimal text
  \<open>dec_str\<close> of any ratio \<open>m / 10^k\<close> in the double range.
\<close>

subsection \<open>Definitions\<close>

definition is_digit :: "char \<Rightarrow> bool" where
  "is_digit c = (48 \<le> (of_char c :: nat) \<and> (of_char c :: nat) \<le> 57)"

definition digit_val :: "char \<Rightarrow> nat" where
  "digit_val c = of_char c - 48"

definition digit_chr :: "nat \<Rightarrow> char" where
  "digit_chr d = char_of (48 + d)"

text \<open>\<open>str.isspace\<close> on the characters up to U+00FF.\<close>

definition py_isspace :: "char \<Rightarrow> bool" where
  "py_isspace c = ((of_char c :: nat) \<in> {9, 10, 11, 12, 13, 28, 29, 30, 31, 32, 133, 160})"

definition ascii_lower :: "char \<Rightarrow> char" where
  "ascii_lower c = (if 65 \<le> (of_char c :: nat) \<and> (of_char c :: nat) \<le> 90 then char_of (of_char c + (32::nat)) else c)"

text \<open>The underscore pass, scanning with the previous character (initially NUL).\<close>

fun drop_underscores :: "char \<Rightarrow> string \<Rightarrow> string option" where
  "drop_underscores prev [] = (if prev = CHR ''_'' then None else Some [])"
| "drop_underscores prev (c # cs) =
     (if c = CHR ''_'' then (if is_digit prev then drop_underscores c cs else None)
      else if prev = CHR ''_'' \<and> \<not> is_digit c then None
      else map_option (Cons c) (drop_underscores c cs))"

fun strip_left :: "string \<Rightarrow> string" where
  "strip_left [] = []"
| "strip_left (c # cs) = (if py_isspace c then strip_left cs else c # cs)"

definition py_strip :: "string \<Rightarrow> string" where
  "py_strip s = rev (strip_left (rev (strip_left s)))"

text \<open>A greedy run of digits: the value accumulated onto \<open>v\<close>, the count added to \<open>n\<close>, the rest.\<close>

fun digits_acc :: "nat \<Rightarrow> nat \<Rightarrow> string \<Rightarrow> nat \<times> nat \<times> string" where
  "digits_acc v n [] = (v, n, [])"
| "digits_acc v n (c # cs) =
     (if is_digit c then digits_acc (10 * v + digit_val c) (Suc n) cs else (v, n, c # cs))"

definition parse_sign :: "string \<Rightarrow> int \<times> string" where
  "parse_sign s =
     (if s \<noteq> [] \<and> hd s = CHR ''-'' then (-1, tl s)
      else if s \<noteq> [] \<and> hd s = CHR ''+'' then (1, tl s)
      else (1, s))"

text \<open>\<open>digits [. digits]\<close> or \<open>. digits\<close>, at least one digit: the digits as one
  number, the count after the point, the rest.\<close>

definition parse_mantissa :: "string \<Rightarrow> (nat \<times> nat \<times> string) option" where
  "parse_mantissa s =
     (case digits_acc 0 0 s of
        (a, na, r) \<Rightarrow>
          if r \<noteq> [] \<and> hd r = CHR ''.'' then
            (case digits_acc a 0 (tl r) of
               (b, nb, r') \<Rightarrow> if na + nb = 0 then None else Some (b, nb, r'))
          else if na = 0 then None else Some (a, 0, r))"

text \<open>\<open>e[sign]digits\<close>; without digits the exponent is not part of the number.\<close>

definition parse_exponent :: "string \<Rightarrow> int \<times> string" where
  "parse_exponent s =
     (if s \<noteq> [] \<and> (hd s = CHR ''e'' \<or> hd s = CHR ''E'') then
        (case parse_sign (tl s) of
           (sg, r) \<Rightarrow> (case digits_acc 0 0 r of
                         (v, n, r') \<Rightarrow> if n = 0 then (0, s) else (sg * int v, r')))
      else (0, s))"

definition decimal_value :: "nat \<Rightarrow> nat \<Rightarrow> int \<Rightarrow> real" where
  "decimal_value m f e =
     (if int f \<le> e then real m * 10 ^ nat (e - int f) else real m / 10 ^ nat (int f - e))"

text \<open>The largest finite double is \<open>2^1024 - 2^971\<close>; from half an ulp above it on,
  a value rounds to infinity.\<close>

definition to_pyfloat :: "real \<Rightarrow> pyfloat" where
  "to_pyfloat x =
     (if 2 ^ 1024 - 2 ^ 970 \<le> \<bar>x\<bar> then (if 0 < x then PInf else NInf) else Fin x)"

definition parse_float_body :: "string \<Rightarrow> pyfloat option" where
  "parse_float_body s =
     (case parse_sign s of
        (sg, r) \<Rightarrow>
          if map ascii_lower r = ''inf'' \<or> map ascii_lower r = ''infinity''
          then Some (if sg < 0 then NInf else PInf)
          else if map ascii_lower r = ''nan'' then Some NaN
          else (case parse_mantissa r of
                  None \<Rightarrow> None
                | Some (m, f, r2) \<Rightarrow>
                    (case parse_exponent r2 of
                       (e, r3) \<Rightarrow> if r3 = [] then Some (to_pyfloat (of_int sg * decimal_value m f e))
                                 else None)))"

definition py_float :: "string \<Rightarrow> pyfloat option" where
  "py_float s =
     (case drop_underscores (CHR 0x00) s of
        None \<Rightarrow> None
      | Some t \<Rightarrow> (let u = py_strip t in if u = [] then None else parse_float_body u))"

text \<open>The number a run of digits denotes, accumulated onto \<open>v\<close>.\<close>

definition digit_fold :: "nat \<Rightarrow> string \<Rightarrow> nat" where
  "digit_fold v xs = fold (\<lambda>c v. 10 * v + digit_val c) xs v"

text \<open>\<open>str(n)\<close> for a natural number.\<close>

fun nat_str :: "nat \<Rightarrow> string" where
  "nat_str n = (if n < 10 then [digit_chr n] else nat_str (n div 10) @ [digit_chr (n mod 10)])"

text \<open>A decimal text for \<open>m / 10^k\<close>: the digits of \<open>|m|\<close>, padded with zeros to more than
  \<open>k\<close> digits, with the point before the last \<open>k\<close>.\<close>

definition dec_str :: "int \<Rightarrow> nat \<Rightarrow> string" where
  "dec_str m k =
     (let ds = nat_str (nat \<bar>m\<bar>);
          ds' = replicate (Suc k - length ds) (CHR ''0'') @ ds;
          j = length ds' - k
      in (if m < 0 then ''-'' else []) @ take j ds' @ (if k = 0 then [] else CHR ''.'' # drop j ds'))"

subsection \<open>Digits\<close>

lemma digits_acc_run:
  assumes "\<forall>c \<in> set xs. is_digit c" and "r = [] \<or> \<not> is_digit (hd r)"
  shows "digits_acc v n (xs @ r) = (digit_fold v xs, n + length xs, r)"
  using assms(1)
proof (induction xs arbitrary: v n)
  case Nil
  then show ?case using assms(2) by (cases r) (auto simp: digit_fold_def)
next
  case (Cons c xs)
  then show ?case by (simp add: digit_fold_def)
qed

lemma is_digit_chr: "d < 10 \<Longrightarrow> is_digit (digit_chr d)"
  by (simp add: is_digit_def digit_chr_def)

lemma digit_val_chr: "d < 10 \<Longrightarrow> digit_val (digit_chr d) = d"
  by (simp add: digit_val_def digit_chr_def)

declare nat_str.simps [simp del]

lemma nat_str_digits: "\<forall>c \<in> set (nat_str n). is_digit c"
proof (induction n rule: nat_str.induct)
  case (1 n)
  then show ?case by (subst nat_str.simps) (auto simp: is_digit_chr)
qed

lemma nat_str_ne: "nat_str n \<noteq> []"
  by (subst nat_str.simps) simp

lemma digit_fold_append: "digit_fold v (xs @ ys) = digit_fold (digit_fold v xs) ys"
  by (simp add: digit_fold_def)

lemma digit_fold_nat_str: "digit_fold 0 (nat_str n) = n"
proof (induction n rule: nat_str.induct)
  case (1 n)
  show ?case
  proof (cases "n < 10")
    case True
    then show ?thesis by (subst nat_str.simps) (simp add: digit_fold_def digit_val_chr)
  next
    case False
    with "1.IH" have "digit_fold 0 (nat_str (n div 10)) = n div 10" by simp
    with False show ?thesis
      by (subst nat_str.simps) (simp add: digit_fold_append digit_fold_def digit_val_chr)
  qed
qed

lemma digit_fold_zeros: "digit_fold 0 (replicate z (CHR ''0'') @ xs) = digit_fold 0 xs"
proof -
  have "digit_fold 0 (replicate z (CHR ''0'')) = 0"
    by (induction z) (simp_all add: digit_fold_def digit_val_def)
  then show ?thesis by (simp add: digit_fold_append)
qed

subsection \<open>Parsing a decimal text\<close>

lemma dec_pad_digits:
  "\<forall>c \<in> set (replicate z (CHR ''0'') @ nat_str n). is_digit c"
  using nat_str_digits[of n] by (auto simp: is_digit_def)

lemma parse_mantissa_split:
  assumes d: "\<forall>c \<in> set ds. is_digit c" and j: "0 < j" "j \<le> length ds"
    and r: "r = [] \<or> (\<not> is_digit (hd r) \<and> hd r \<noteq> CHR ''.'')"
  shows "parse_mantissa (take j ds @ (if length ds - j = 0 then [] else CHR ''.'' # drop j ds) @ r) =
           Some (digit_fold 0 ds, length ds - j, r)"
proof -
  have dt: "\<forall>c \<in> set (take j ds). is_digit c" and dd: "\<forall>c \<in> set (drop j ds). is_digit c"
    using d by (auto dest: in_set_takeD in_set_dropD)
  have dot: "\<not> is_digit (CHR ''.'')" by (simp add: is_digit_def)
  have r': "r = [] \<or> \<not> is_digit (hd r)" using r by blast
  have fold: "digit_fold (digit_fold 0 (take j ds)) (drop j ds) = digit_fold 0 ds"
    by (simp flip: digit_fold_append)
  show ?thesis
  proof (cases "length ds - j = 0")
    case True
    then have tk: "take j ds = ds" and ne: "length ds \<noteq> 0" using j by simp_all
    have run: "digits_acc 0 0 (ds @ r) = (digit_fold 0 ds, length ds, r)"
      using digits_acc_run[OF d r', of 0 0] by simp
    have nd: "(r \<noteq> [] \<and> hd r = CHR ''.'') = False" using r by blast
    show ?thesis using True ne by (simp add: tk run nd parse_mantissa_def)
  next
    case False
    have r1: "digits_acc 0 0 (take j ds @ CHR ''.'' # drop j ds @ r) =
                (digit_fold 0 (take j ds), length (take j ds), CHR ''.'' # drop j ds @ r)"
      using digits_acc_run[OF dt, of "CHR ''.'' # drop j ds @ r" 0 0] dot by simp
    have r2: "digits_acc (digit_fold 0 (take j ds)) 0 (drop j ds @ r) =
                (digit_fold 0 ds, length ds - j, r)"
      using digits_acc_run[OF dd r', of "digit_fold 0 (take j ds)" 0] fold by simp
    from False r1 r2 j show ?thesis by (simp add: parse_mantissa_def)
  qed
qed

lemma drop_underscores_plain:
  "CHR ''_'' \<notin> set s \<Longrightarrow> prev \<noteq> CHR ''_'' \<Longrightarrow> drop_underscores prev s = Some s"
  by (induction prev s rule: drop_underscores.induct) auto

lemma strip_left_id: "s = [] \<or> \<not> py_isspace (hd s) \<Longrightarrow> strip_left s = s"
  by (cases s) auto

lemma py_strip_id:
  assumes "s \<noteq> []" and "\<not> py_isspace (hd s)" and "\<not> py_isspace (last s)"
  shows "py_strip s = s"
proof -
  have "rev s \<noteq> []" and "hd (rev s) = last s" using assms(1) by (simp_all add: hd_rev)
  with assms show ?thesis by (simp add: py_strip_def strip_left_id)
qed

lemma digit_not_space: "is_digit c \<Longrightarrow> \<not> py_isspace c"
  by (auto simp: is_digit_def py_isspace_def)

lemma digit_not_special: "is_digit c \<Longrightarrow> c \<noteq> CHR ''_'' \<and> c \<noteq> CHR ''-'' \<and> c \<noteq> CHR ''+'' \<and> c \<noteq> CHR ''.''"
  by (auto simp: is_digit_def)

lemma ascii_lower_digit: "is_digit c \<Longrightarrow> ascii_lower c = c"
  by (simp add: is_digit_def ascii_lower_def)

lemma lower_digit_word:
  assumes "s \<noteq> []" and "is_digit (hd s)"
  shows "map ascii_lower s \<noteq> ''inf'' \<and> map ascii_lower s \<noteq> ''infinity'' \<and> map ascii_lower s \<noteq> ''nan''"
proof -
  obtain c cs where s: "s = c # cs" using assms(1) by (cases s) auto
  with assms(2) have "ascii_lower c = c" and "c \<noteq> CHR ''i''" and "c \<noteq> CHR ''n''"
    by (simp_all add: ascii_lower_digit) (auto simp: is_digit_def)
  with s show ?thesis by auto
qed

lemma decimal_value_plain: "decimal_value n k 0 = real n / 10 ^ k"
  unfolding decimal_value_def by auto

lemma to_pyfloat_Fin: "\<bar>x\<bar> < 2 ^ 1024 - 2 ^ 970 \<Longrightarrow> to_pyfloat x = Fin x"
  by (simp add: to_pyfloat_def)

lemma parse_exponent_Nil [simp]: "parse_exponent [] = (0, [])"
  by (simp add: parse_exponent_def)

text \<open>The body of \<open>dec_str\<close> (no sign) parses to \<open>n / 10^k\<close> with sign \<open>sg\<close>.\<close>

lemma parse_dec_body:
  fixes n k :: nat
  defines "ds \<equiv> replicate (Suc k - length (nat_str n)) (CHR ''0'') @ nat_str n"
  defines "j \<equiv> length ds - k"
  defines "body \<equiv> take j ds @ (if k = 0 then [] else CHR ''.'' # drop j ds)"
  shows "body \<noteq> [] \<and> is_digit (hd body) \<and> is_digit (last body) \<and> CHR ''_'' \<notin> set body \<and>
         parse_mantissa body = Some (n, k, [])"
proof -
  have d: "\<forall>c \<in> set ds. is_digit c" unfolding ds_def by (rule dec_pad_digits)
  have len: "Suc k \<le> length ds" unfolding ds_def by simp
  then have j: "0 < j" "j \<le> length ds" "length ds - j = k" unfolding j_def by auto
  have val: "digit_fold 0 ds = n" unfolding ds_def by (simp add: digit_fold_zeros digit_fold_nat_str)
  have tk: "take j ds \<noteq> []" "\<forall>c \<in> set (take j ds). is_digit c"
    using j d by (auto dest: in_set_takeD)
  have dr: "k \<noteq> 0 \<Longrightarrow> drop j ds \<noteq> [] \<and> (\<forall>c \<in> set (drop j ds). is_digit c)"
    using j d by (auto dest: in_set_dropD)
  have "parse_mantissa body = Some (n, k, [])"
    using parse_mantissa_split[OF d j(1,2), of "[]"] j(3) val unfolding body_def by simp
  moreover have "body \<noteq> [] \<and> is_digit (hd body)"
  proof -
    have h: "is_digit (hd (take j ds))" using tk(2) hd_in_set[OF tk(1)] by blast
    then show ?thesis using tk(1) unfolding body_def by simp
  qed
  moreover have "is_digit (last body)"
  proof (cases "k = 0")
    case True
    then show ?thesis using tk unfolding body_def by simp
  next
    case False
    have "drop j ds \<noteq> []" and "\<forall>c \<in> set (drop j ds). is_digit c" using dr[OF False] by auto
    then have "is_digit (last (drop j ds))" using last_in_set by blast
    then show ?thesis using False \<open>drop j ds \<noteq> []\<close> unfolding body_def by simp
  qed
  moreover have "CHR ''_'' \<notin> set body"
    using tk dr digit_not_special unfolding body_def by (auto simp: is_digit_def)
  ultimately show ?thesis by blast
qed

lemma sign_times_abs: "of_int (if m < 0 then -1 else 1) * real (nat \<bar>m\<bar>) = (of_int m :: real)"
  by simp

text \<open>\<open>float\<close> on an optional minus sign and a body that starts and ends with a digit
  and has no underscore: the value of its mantissa and exponent.\<close>

lemma py_float_body:
  assumes b: "body \<noteq> []" "is_digit (hd body)" "is_digit (last body)" "CHR ''_'' \<notin> set body"
    and m: "parse_mantissa body = Some (n, f, r)" and e: "parse_exponent r = (ex, [])"
  shows "py_float ((if neg then ''-'' else []) @ body) =
           Some (to_pyfloat (of_int (if neg then -1 else 1) * decimal_value n f ex))"
proof -
  define pre where "pre = (if neg then ''-'' else [])"
  have u: "drop_underscores (CHR 0x00) (pre @ body) = Some (pre @ body)"
    using b by (intro drop_underscores_plain) (auto simp: pre_def)
  have hd_ok: "\<not> py_isspace (hd (pre @ body))"
    using b digit_not_space by (auto simp: pre_def py_isspace_def)
  have last_ok: "\<not> py_isspace (last (pre @ body))"
    using b digit_not_space by simp
  have st: "py_strip (pre @ body) = pre @ body"
    using b hd_ok last_ok by (intro py_strip_id) auto
  have sg: "parse_sign (pre @ body) = ((if neg then -1 else 1), body)"
    using b digit_not_special[of "hd body"] by (auto simp: parse_sign_def pre_def)
  have w: "map ascii_lower body \<noteq> ''inf'' \<and> map ascii_lower body \<noteq> ''infinity'' \<and>
           map ascii_lower body \<noteq> ''nan''"
    using b by (intro lower_digit_word) auto
  have "parse_float_body (pre @ body) =
          Some (to_pyfloat (of_int (if neg then -1 else 1) * decimal_value n f ex))"
    using sg w m e by (simp add: parse_float_body_def)
  moreover have "pre @ body \<noteq> []" using b by simp
  ultimately show ?thesis using u st by (simp add: py_float_def pre_def)
qed

text \<open>\<open>float\<close> reads the decimal text of \<open>m / 10^k\<close> as that number, rounded to
  infinity past the double range; within the range, as the number itself.\<close>

lemma py_float_dec_text: "py_float (dec_str m k) = Some (to_pyfloat (of_int m / 10 ^ k))"
proof -
  define n where "n = nat \<bar>m\<bar>"
  define ds where "ds = replicate (Suc k - length (nat_str n)) (CHR ''0'') @ nat_str n"
  define j where "j = length ds - k"
  define body where "body = take j ds @ (if k = 0 then [] else CHR ''.'' # drop j ds)"
  have b: "body \<noteq> [] \<and> is_digit (hd body) \<and> is_digit (last body) \<and> CHR ''_'' \<notin> set body \<and>
           parse_mantissa body = Some (n, k, [])"
    unfolding body_def j_def ds_def by (rule parse_dec_body)
  have s: "dec_str m k = (if m < 0 then ''-'' else []) @ body"
    by (simp add: dec_str_def Let_def body_def j_def ds_def n_def)
  have v: "of_int (if m < 0 then -1 else 1) * decimal_value n k 0 = of_int m / 10 ^ k"
    using sign_times_abs[of m] by (simp add: decimal_value_plain n_def)
  show ?thesis
    using py_float_body[of body n k "[]" 0 "m < 0"] b s v by simp
qed

lemma py_float_dec_str:
  assumes "\<bar>of_int m / 10 ^ k\<bar> < (2::real) ^ 1024 - 2 ^ 970"
  shows "py_float (dec_str m k) = Some (Fin (of_int m / 10 ^ k))"
  using py_float_dec_text[of m k] to_pyfloat_Fin[OF assms] by simp

subsection \<open>Characters of a decimal text\<close>

lemma dec_str_chars: "\<forall>c \<in> set (dec_str m k). is_digit c \<or> c = CHR ''-'' \<or> c = CHR ''.''"
  using dec_pad_digits[of "Suc k - length (nat_str (nat \<bar>m\<bar>))" "nat \<bar>m\<bar>"]
  by (auto simp: dec_str_def Let_def dest: in_set_takeD in_set_dropD)

lemma comma_free_dec_str: "sep_free '','' (dec_str m k)"
proof -
  have "CHR '','' \<notin> set (dec_str m k)"
    using dec_str_chars[of m k] by (auto simp: is_digit_def)
  then show ?thesis by (simp add: sep_free_def py_contains_single)
qed

end
