(* ===== verification/Args.thy ===== *)
theory Args
  imports Coords PyFloatStr
begin

text \<open>
  The coordinate argument \<open>get_coord_args\<close> (src/main.py, lines 72-90).  Without
  \<open>-c\<close> in the argument list it returns the default coordinates unchanged.  Otherwise it
  takes the argument after the first \<open>-c\<close>, splits it at commas and unpacks exactly two
  parts; these steps are outside the \<open>try\<close>, so a missing argument (\<open>IndexError\<close>) or a
  wrong number of parts (\<open>ValueError\<close>) ends the process with a traceback.  Inside the
  \<open>try\<close>, \<open>float()\<close> failing on either part prints an error and exits with status 1.
  The two numbers then go through \<open>wrap_coords\<close>.  The lemmas give the result on
  every path and show that any decimal text \<open>LAT,LONG\<close> is read as its two numbers.
\<close>

subsection \<open>Definitions\<close>

definition default_coords :: "pyfloat \<times> pyfloat" where
  "default_coords = (Fin (421 / 10), Fin (- 759 / 10))"

definition float_error :: string where
  "float_error = ''[red]Invalid args: bad float number format''"

text \<open>\<open>(lat, long) = parts\<close>: unpacking raises \<open>ValueError\<close> unless there are two.\<close>

fun unpack2 :: "'a list \<Rightarrow> ('a \<times> 'a) res" where
  "unpack2 [a, b] = Inr (a, b)"
| "unpack2 _ = Inl ValueError"

definition get_coord_args :: "string list \<Rightarrow> (pyfloat \<times> pyfloat) proc" where
  "get_coord_args args =
     (if ''-c'' \<notin> set args then ([], Done default_coords)
      else pbind
        (of_res (rbind (py_index args (int (first_index args ''-c'') + 1)) (\<lambda>arg.
                 rbind (py_split '','' arg) unpack2)))
        (\<lambda>(lat, long).
           case (py_float lat, py_float long) of
             (Some x, Some y) \<Rightarrow> ([], Done (wrap_coords x y))
           | _ \<Rightarrow> ([float_error], Exited 1)))"

subsection \<open>Reading the argument\<close>

lemma get_coord_args_arg:
  assumes "''-c'' \<notin> set pre"
  shows "get_coord_args (pre @ ''-c'' # a # post) =
           pbind (of_res (rbind (py_split '','' a) unpack2))
             (\<lambda>(lat, long). case (py_float lat, py_float long) of
                 (Some x, Some y) \<Rightarrow> ([], Done (wrap_coords x y))
               | _ \<Rightarrow> ([float_error], Exited 1))"
proof -
  have "py_index (pre @ ''-c'' # a # post) (int (first_index (pre @ ''-c'' # a # post) ''-c'') + 1) = Inr a"
    using assms by (simp add: first_index_append_notin py_index_def nth_append Let_def)
  then show ?thesis by (simp add: get_coord_args_def)
qed

lemma split_dec_pair:
  "py_split '','' (dec_str a k @ CHR '','' # dec_str b l) = Inr [dec_str a k, dec_str b l]"
  using split_join[of "'',''" "[dec_str a k, dec_str b l]"] comma_free_dec_str by simp

subsection \<open>Properties of the argument reader\<close>

text \<open>C19 (roundtrip).  After a first \<open>-c\<close>, an argument \<open>LAT,LONG\<close> written as two
  decimal numbers in the double range is read as exactly those numbers, which are then
  normalised; nothing is printed.\<close>

theorem get_coord_args_roundtrip:
  assumes "''-c'' \<notin> set pre"
    and "\<bar>of_int a / 10 ^ k\<bar> < (2::real) ^ 1024 - 2 ^ 970"
    and "\<bar>of_int b / 10 ^ l\<bar> < (2::real) ^ 1024 - 2 ^ 970"
  shows "get_coord_args (pre @ ''-c'' # (dec_str a k @ '','' @ dec_str b l) # post) =
           ([], Done (wrap_coords (Fin (of_int a / 10 ^ k)) (Fin (of_int b / 10 ^ l))))"
  using assms by (simp add: get_coord_args_arg split_dec_pair py_float_dec_str)

theorem get_coord_args_roundtrip_witness:
  "get_coord_args [''croon'', ''-c'', dec_str 421 1 @ '','' @ dec_str (-759) 1] =
         ([], Done default_coords)"
  using get_coord_args_roundtrip[of "[''croon'']" 421 1 "-759" 1 "[]"]
  by (simp add: default_coords_def wrap_coords_def wrap_axis_def)

text \<open>C20 (functional).  Without \<open>-c\<close> the coordinates are 42.1 and -75.9, returned
  unchanged and printing nothing; they are within range.\<close>

theorem get_coord_args_default:
  assumes "''-c'' \<notin> set args"
  shows "get_coord_args args = ([], Done (Fin (421 / 10), Fin (- 759 / 10))) \<and>
         coords_ok (Fin (421 / 10), Fin (- 759 / 10))"
  using assms by (simp add: get_coord_args_def default_coords_def coords_ok_def)

theorem get_coord_args_default_witness:
  "get_coord_args [''croon'', ''--coords''] = ([], Done (Fin (421 / 10), Fin (- 759 / 10))) \<and>
   coords_ok (Fin (421 / 10), Fin (- 759 / 10))"
  using get_coord_args_default[of "[''croon'', ''--coords'']"] by simp

text \<open>C21 (error).  A \<open>-c\<close> that is the last argument makes \<open>args[i + 1]\<close> raise an
  \<open>IndexError\<close> that nothing catches.\<close>

theorem get_coord_args_missing_value:
  assumes "''-c'' \<notin> set pre"
  shows "get_coord_args (pre @ [''-c'']) = ([], Crashed IndexError)"
  using assms by (simp add: get_coord_args_def first_index_append_notin py_index_def Let_def)

theorem get_coord_args_missing_value_witness:
  "''-c'' \<notin> set [''croon''] \<and> get_coord_args [''croon'', ''-c''] = ([], Crashed IndexError)"
  using get_coord_args_missing_value[of "[''croon'']"] by simp

text \<open>C22 (error).  An argument after \<open>-c\<close> that does not split into exactly two parts
  at commas raises \<open>ValueError\<close> in the tuple unpacking, outside the \<open>try\<close>: a
  traceback, not the bad-number message.\<close>

theorem get_coord_args_bad_parts:
  assumes "''-c'' \<notin> set pre" and "length (split_aux '','' [] a) \<noteq> 2"
  shows "get_coord_args (pre @ ''-c'' # a # post) = ([], Crashed ValueError)"
proof -
  have "unpack2 (split_aux '','' [] a) = Inl ValueError"
    using assms(2) by (cases "split_aux '','' [] a" rule: unpack2.cases) auto
  with assms(1) show ?thesis by (simp add: get_coord_args_arg py_split_def)
qed

theorem get_coord_args_bad_parts_witness:
  "''-c'' \<notin> set [''croon''] \<and> length (split_aux '','' [] ''42.1'') \<noteq> 2 \<and>
   get_coord_args [''croon'', ''-c'', ''42.1''] = ([], Crashed ValueError)"
proof -
  have "split_aux '','' [] ''42.1'' = [''42.1'']" by code_simp
  then show ?thesis using get_coord_args_bad_parts[of "[''croon'']" "''42.1''" "[]"] by simp
qed

text \<open>C23 (error).  Two parts of which one is not a Python float literal print the
  bad-number message and exit with status 1.\<close>

theorem get_coord_args_bad_float:
  assumes "''-c'' \<notin> set pre" and "py_split '','' a = Inr [x, y]"
    and "py_float x = None \<or> py_float y = None"
  shows "get_coord_args (pre @ ''-c'' # a # post) = ([float_error], Exited 1)"
  using assms by (auto simp: get_coord_args_arg split: option.splits)

theorem get_coord_args_bad_float_witness:
  "''-c'' \<notin> set [''croon''] \<and> py_split '','' ''abc,1'' = Inr [''abc'', ''1''] \<and>
   py_float ''abc'' = None \<and> get_coord_args [''croon'', ''-c'', ''abc,1''] = ([float_error], Exited 1)"
proof -
  have s: "py_split '','' ''abc,1'' = Inr [''abc'', ''1'']" by code_simp
  have f: "py_float ''abc'' = None" by code_simp
  show ?thesis using get_coord_args_bad_float[of "[''croon'']" "''abc,1''" "''abc''" "''1''" "[]"] s f
    by simp
qed

end
