(* ===== verification/PyRepr.thy ===== *)
theory PyRepr
  imports PyValue PyFloatStr
begin

text \<open>
  Python's \<open>str()\<close> and \<open>repr()\<close> of the values croon prints: integers, floats
  (\<open>float_repr\<close>, the shortest text that reads back as the same number), strings with
  their quotes and escapes (\<open>str_repr\<close>), and JSON values (\<open>py_repr\<close>, \<open>py_str\<close>).
  An f-string field \<open>{v}\<close> is \<open>format(v, '')\<close>, which is \<open>str(v)\<close>.
\<close>

subsection \<open>Integers\<close>

definition int_str :: "int \<Rightarrow> string" where
  "int_str i = (if i < 0 then ''-'' else []) @ nat_str (nat \<bar>i\<bar>)"

subsection \<open>Floats\<close>

text \<open>
  A finite double is an integer multiple of \<open>2^-1074\<close>, hence of \<open>10^-1074\<close>: the
  search for the number of decimal places stops by 1074 at the latest, which is its fuel.
\<close>

definition is_int_real :: "real \<Rightarrow> bool" where
  "is_int_real x = (of_int \<lfloor>x\<rfloor> = x)"

function dec_search :: "real \<Rightarrow> nat \<Rightarrow> nat" where
  "dec_search x k = (if k < 1074 \<and> \<not> is_int_real (x * 10 ^ k) then dec_search x (Suc k) else k)"
  by pat_completeness auto
termination
  by (relation "measure (\<lambda>(x, k). 1074 - k)") auto

declare dec_search.simps [simp del]

definition dec_places :: "real \<Rightarrow> nat" where
  "dec_places x = dec_search x 0"

definition strip_zeros :: "string \<Rightarrow> string" where
  "strip_zeros ds = rev (dropWhile (\<lambda>c. c = CHR ''0'') (rev ds))"

text \<open>The exponent of the scientific form: a sign and at least two digits.\<close>

definition exp_str :: "int \<Rightarrow> string" where
  "exp_str e =
     (if e < 0 then ''-'' else ''+'') @
     (let ds = nat_str (nat \<bar>e\<bar>) in if length ds < 2 then CHR ''0'' # ds else ds)"

text \<open>
  \<open>x = m / 10^k\<close> with \<open>k\<close> least; the digits of \<open>|m|\<close> put the leading digit at
  decimal exponent \<open>e\<close>.  CPython's \<open>repr\<close> switches to the scientific form when
  \<open>e < -4\<close> or \<open>16 \<le> e\<close>, and adds \<open>.0\<close> to an integral value.  Zero is \<open>0.0\<close>.
\<close>

definition fin_repr :: "real \<Rightarrow> string" where
  "fin_repr x =
     (let k = dec_places x; m = \<lfloor>x * 10 ^ k\<rfloor>; ds = nat_str (nat \<bar>m\<bar>);
          e = int (length ds) - 1 - int k
      in if m = 0 then ''0.0''
         else if e < -4 \<or> 16 \<le> e then
           (let ds' = strip_zeros ds
            in (if m < 0 then ''-'' else []) @ [hd ds'] @
               (if tl ds' = [] then [] else CHR ''.'' # tl ds') @ CHR ''e'' # exp_str e)
         else if k = 0 then dec_str (m * 10) 1
         else dec_str m k)"

fun float_repr :: "pyfloat \<Rightarrow> string" where
  "float_repr (Fin x) = fin_repr x"
| "float_repr PInf = ''inf''"
| "float_repr NInf = ''-inf''"
| "float_repr NaN = ''nan''"

subsection \<open>Strings and JSON values\<close>

text \<open>
  \<open>repr\<close> of a string: single quotes unless the text has a single quote and no double
  quote; a backslash, the chosen quote, tab, newline and return are escaped, other
  unprintable characters (controls, \<open>0x7f\<close>-\<open>0xa0\<close> and the soft hyphen \<open>0xad\<close>) are
  written \<open>\xNN\<close>.
\<close>

definition hex_digit :: "nat \<Rightarrow> char" where
  "hex_digit n = (if n < 10 then char_of (48 + n) else char_of (87 + n))"

definition py_printable :: "char \<Rightarrow> bool" where
  "py_printable c = (let n = of_char c :: nat in (32 \<le> n \<and> n < 127) \<or> (161 \<le> n \<and> n \<noteq> 173))"

definition repr_char :: "char \<Rightarrow> char \<Rightarrow> string" where
  "repr_char q c =
     (if c = CHR 0x5C then [CHR 0x5C, CHR 0x5C]
      else if c = q then [CHR 0x5C, q]
      else if c = CHR 0x09 then [CHR 0x5C, CHR ''t'']
      else if c = CHR 0x0A then [CHR 0x5C, CHR ''n'']
      else if c = CHR 0x0D then [CHR 0x5C, CHR ''r'']
      else if py_printable c then [c]
      else [CHR 0x5C, CHR ''x'', hex_digit (of_char c div 16), hex_digit (of_char c mod 16)])"

definition str_repr :: "string \<Rightarrow> string" where
  "str_repr s =
     (let q = (if CHR 0x27 \<in> set s \<and> CHR 0x22 \<notin> set s then CHR 0x22 else CHR 0x27)
      in q # concat (map (repr_char q) s) @ [q])"

fun py_repr :: "pyval \<Rightarrow> string" where
  "py_repr PNone = ''None''"
| "py_repr (PBool b) = (if b then ''True'' else ''False'')"
| "py_repr (PInt i) = int_str i"
| "py_repr (PFloat f) = float_repr f"
| "py_repr (PStr s) = str_repr s"
| "py_repr (PList xs) = ''['' @ py_join '', '' (map py_repr xs) @ '']''"
| "py_repr (PDict kvs) =
     ''{'' @ py_join '', '' (map (\<lambda>(k, v). str_repr k @ '': '' @ py_repr v) kvs) @ ''}''"

text \<open>\<open>str(v)\<close>: a string is itself, every other value its \<open>repr\<close>.\<close>

fun py_str :: "pyval \<Rightarrow> string" where
  "py_str (PStr s) = s"
| "py_str v = py_repr v"

subsection \<open>The decimal-place search\<close>

lemma is_int_real_shift:
  assumes "is_int_real (x * 10 ^ k)" and "k \<le> j"
  shows "is_int_real (x * 10 ^ j)"
proof -
  have a: "of_int \<lfloor>x * 10 ^ k\<rfloor> = x * 10 ^ k" using assms(1) unfolding is_int_real_def .
  have "x * 10 ^ j = x * 10 ^ k * 10 ^ (j - k)"
    using assms(2) by (simp add: power_add [symmetric])
  also have "\<dots> = of_int \<lfloor>x * 10 ^ k\<rfloor> * 10 ^ (j - k)"
    by (simp only: a)
  also have "\<dots> = of_int (\<lfloor>x * 10 ^ k\<rfloor> * 10 ^ (j - k))"
    by simp
  finally show ?thesis unfolding is_int_real_def by (simp only: floor_of_int)
qed

lemma dec_search_ok:
  "is_int_real (x * 10 ^ k0) \<Longrightarrow> k \<le> k0 \<Longrightarrow> k0 \<le> 1074 \<Longrightarrow>
   dec_search x k \<le> k0 \<and> is_int_real (x * 10 ^ dec_search x k)"
proof (induction x k rule: dec_search.induct)
  case (1 x k)
  show ?case
  proof (cases "k < 1074 \<and> \<not> is_int_real (x * 10 ^ k)")
    case True
    with "1.prems" have "Suc k \<le> k0" by (cases "k = k0") auto
    with "1.IH" True "1.prems" show ?thesis by (simp add: dec_search.simps [of x k])
  next
    case False
    have "is_int_real (x * 10 ^ k)"
    proof (cases "k < 1074")
      case False
      with "1.prems" have "k = k0" by simp
      with "1.prems" show ?thesis by simp
    qed (use False in simp)
    with False "1.prems" show ?thesis by (simp add: dec_search.simps [of x k])
  qed
qed

lemma dec_places_zero [simp]: "dec_places 0 = 0"
  by (simp add: dec_places_def dec_search.simps is_int_real_def)

text \<open>With \<open>k = dec_places x\<close> exact, \<open>x\<close> is \<open>\<lfloor>x * 10^k\<rfloor> / 10^k\<close>.\<close>

lemma dec_places_exact:
  assumes "is_int_real (x * 10 ^ dec_places x)"
  shows "x = of_int \<lfloor>x * 10 ^ dec_places x\<rfloor> / 10 ^ dec_places x"
proof -
  have "of_int \<lfloor>x * 10 ^ dec_places x\<rfloor> = x * 10 ^ dec_places x"
    using assms unfolding is_int_real_def .
  then show ?thesis by (simp only:) simp
qed

subsection \<open>Digits of the scientific form\<close>

lemma strip_zeros_split:
  "ds = strip_zeros ds @ replicate (length ds - length (strip_zeros ds)) (CHR ''0'')"
proof -
  let ?P = "\<lambda>c. c = CHR ''0''"
  let ?t = "takeWhile ?P (rev ds)"
  have t: "?t = replicate (length ?t) (CHR ''0'')"
    by (rule replicate_length_same [symmetric]) (auto dest: set_takeWhileD)
  have h: "length ?t + length (dropWhile ?P (rev ds)) = length ds"
    by (metis length_append length_rev takeWhile_dropWhile_id)
  then have l: "length ?t = length ds - length (strip_zeros ds)"
    by (simp add: strip_zeros_def)
  have "ds = rev (?t @ dropWhile ?P (rev ds))"
    by (simp only: takeWhile_dropWhile_id rev_rev_ident)
  also have "\<dots> = strip_zeros ds @ rev ?t"
    by (simp only: rev_append strip_zeros_def)
  also have "rev ?t = rev (replicate (length ?t) (CHR ''0''))"
    using t by (rule arg_cong)
  finally show ?thesis by (simp only: rev_replicate l)
qed

lemma digit_fold_replicate_zero: "digit_fold v (replicate z (CHR ''0'')) = v * 10 ^ z"
  by (induction z arbitrary: v) (simp_all add: digit_fold_def digit_val_def)

lemma strip_zeros_digits:
  "\<forall>c \<in> set ds. is_digit c \<Longrightarrow> \<forall>c \<in> set (strip_zeros ds). is_digit c"
  by (auto simp: strip_zeros_def dest: set_dropWhileD)

lemma strip_zeros_nat_str:
  assumes "0 < n"
  shows "strip_zeros (nat_str n) \<noteq> [] \<and>
         digit_fold 0 (strip_zeros (nat_str n)) * 10 ^ (length (nat_str n) - length (strip_zeros (nat_str n))) = n"
proof -
  define z where "z = length (nat_str n) - length (strip_zeros (nat_str n))"
  have "digit_fold 0 (nat_str n) = digit_fold 0 (strip_zeros (nat_str n) @ replicate z (CHR ''0''))"
    using strip_zeros_split [of "nat_str n"] unfolding z_def by (rule arg_cong)
  then have n: "digit_fold 0 (strip_zeros (nat_str n)) * 10 ^ z = n"
    by (simp add: digit_fold_append digit_fold_replicate_zero digit_fold_nat_str)
  moreover have "strip_zeros (nat_str n) \<noteq> []"
  proof
    assume "strip_zeros (nat_str n) = []"
    with n assms show False by (simp add: digit_fold_def)
  qed
  ultimately show ?thesis by (simp add: z_def)
qed

lemma exp_str_shape:
  "\<exists>ds. exp_str e = (if e < 0 then ''-'' else ''+'') @ ds \<and> ds \<noteq> [] \<and>
        (\<forall>c \<in> set ds. is_digit c) \<and> digit_fold 0 ds = nat \<bar>e\<bar>"
proof -
  define ds where "ds = nat_str (nat \<bar>e\<bar>)"
  define ds' where "ds' = (if length ds < 2 then CHR ''0'' # ds else ds)"
  have "\<forall>c \<in> set ds'. is_digit c"
    using nat_str_digits[of "nat \<bar>e\<bar>"] by (auto simp: ds'_def ds_def is_digit_def)
  moreover have "ds' \<noteq> []" by (simp add: ds'_def ds_def nat_str_ne)
  moreover have "digit_fold 0 ds' = nat \<bar>e\<bar>"
    using digit_fold_zeros[of 1 ds] digit_fold_nat_str[of "nat \<bar>e\<bar>"] by (simp add: ds'_def ds_def)
  moreover have "exp_str e = (if e < 0 then ''-'' else ''+'') @ ds'"
    by (simp add: exp_str_def ds'_def ds_def Let_def)
  ultimately show ?thesis by blast
qed

lemma parse_exponent_exp_str: "parse_exponent (CHR ''e'' # exp_str e) = (e, [])"
proof -
  obtain ds where s: "exp_str e = (if e < 0 then ''-'' else ''+'') @ ds" and ne: "ds \<noteq> []"
    and d: "\<forall>c \<in> set ds. is_digit c" and v: "digit_fold 0 ds = nat \<bar>e\<bar>"
    using exp_str_shape[of e] by blast
  have run: "digits_acc 0 0 ds = (nat \<bar>e\<bar>, length ds, [])"
    using digits_acc_run[OF d, of "[]" 0 0] v by simp
  show ?thesis using run ne by (simp add: s parse_exponent_def parse_sign_def)
qed

lemma decimal_value_powi: "decimal_value n f e = real n * 10 powi (e - int f)"
  by (simp add: decimal_value_def power_int_def field_simps)

subsection \<open>Reading a printed float\<close>

text \<open>The scientific form: mantissa \<open>d[.ddd]\<close>, then \<open>e\<close> and the exponent.\<close>

lemma py_float_sci:
  assumes "0 < n" and "e = int (length (nat_str n)) - 1 - int k"
  defines "ds' \<equiv> strip_zeros (nat_str n)"
  shows "py_float ((if neg then ''-'' else []) @ [hd ds'] @
                   (if tl ds' = [] then [] else CHR ''.'' # tl ds') @ CHR ''e'' # exp_str e) =
           Some (to_pyfloat (of_int (if neg then -1 else 1) * (real n / 10 ^ k)))"
proof -
  define z where "z = length (nat_str n) - length ds'"
  have ne: "ds' \<noteq> []" and n: "digit_fold 0 ds' * 10 ^ z = n"
    using strip_zeros_nat_str[OF assms(1)] by (simp_all add: ds'_def z_def)
  have d: "\<forall>c \<in> set ds'. is_digit c"
    unfolding ds'_def by (rule strip_zeros_digits[OF nat_str_digits])
  obtain es where es: "exp_str e = (if e < 0 then ''-'' else ''+'') @ es" "es \<noteq> []"
    "\<forall>c \<in> set es. is_digit c"
    using exp_str_shape[of e] by blast
  define r where "r = CHR ''e'' # exp_str e"
  define body where "body = take 1 ds' @ (if length ds' - 1 = 0 then [] else CHR ''.'' # drop 1 ds') @ r"
  have b: "[hd ds'] @ (if tl ds' = [] then [] else CHR ''.'' # tl ds') @ r = body"
    using ne by (cases ds') (simp_all add: body_def)
  have r: "r = [] \<or> (\<not> is_digit (hd r) \<and> hd r \<noteq> CHR ''.'')"
    by (simp add: r_def is_digit_def)
  have m: "parse_mantissa body = Some (digit_fold 0 ds', length ds' - 1, r)"
    unfolding body_def by (rule parse_mantissa_split[OF d _ _ r]) (use ne in \<open>simp_all add: Suc_le_eq\<close>)
  have ex: "parse_exponent r = (e, [])" by (simp add: r_def parse_exponent_exp_str)
  have hd: "is_digit (hd body)" using ne d by (cases ds') (simp_all add: body_def)
  have lst: "is_digit (last body)"
    using es by (simp add: body_def r_def)
  have us: "CHR ''_'' \<notin> set body"
    using d es digit_not_special by (auto simp: body_def r_def is_digit_def dest: in_set_takeD in_set_dropD)
  have "length ds' \<le> length (nat_str n)"
    using arg_cong [OF strip_zeros_split [of "nat_str n"], of length] by (simp add: ds'_def)
  moreover have "1 \<le> length ds'" using ne by (simp add: Suc_le_eq)
  ultimately have "e - int (length ds' - 1) = int z - int k"
    using assms(2) by (simp add: z_def of_nat_diff)
  then have "decimal_value (digit_fold 0 ds') (length ds' - 1) e = real n / 10 ^ k"
  proof -
    have "real (digit_fold 0 ds') * 10 ^ z = real n"
      using arg_cong [OF n, of real] by simp
    with \<open>e - int (length ds' - 1) = int z - int k\<close> show ?thesis
      by (simp add: decimal_value_powi power_int_diff)
  qed
  moreover have "body \<noteq> []" by (simp add: body_def r_def)
  ultimately have "py_float ((if neg then ''-'' else []) @ body) =
                     Some (to_pyfloat (of_int (if neg then -1 else 1) * (real n / 10 ^ k)))"
    using py_float_body[of body _ _ r e neg] m ex hd lst us by simp
  then show ?thesis using b by (simp only: r_def)
qed

text \<open>The four forms of \<open>fin_repr\<close>.\<close>

lemma fin_repr_cases:
  assumes "k = dec_places x" and "m = \<lfloor>x * 10 ^ k\<rfloor>"
    and "e = int (length (nat_str (nat \<bar>m\<bar>))) - 1 - int k"
  obtains (zero) "m = 0" "fin_repr x = ''0.0''"
  | (sci) "0 < nat \<bar>m\<bar>" "fin_repr x =
            (if m < 0 then ''-'' else []) @ [hd (strip_zeros (nat_str (nat \<bar>m\<bar>)))] @
            (if tl (strip_zeros (nat_str (nat \<bar>m\<bar>))) = [] then []
             else CHR ''.'' # tl (strip_zeros (nat_str (nat \<bar>m\<bar>)))) @ CHR ''e'' # exp_str e"
  | (int) "k = 0" "fin_repr x = dec_str (m * 10) 1"
  | (dec) "fin_repr x = dec_str m k"
proof -
  have f: "fin_repr x =
     (if m = 0 then ''0.0''
      else if e < -4 \<or> 16 \<le> e then
        (if m < 0 then ''-'' else []) @ [hd (strip_zeros (nat_str (nat \<bar>m\<bar>)))] @
        (if tl (strip_zeros (nat_str (nat \<bar>m\<bar>))) = [] then []
         else CHR ''.'' # tl (strip_zeros (nat_str (nat \<bar>m\<bar>)))) @ CHR ''e'' # exp_str e
      else if k = 0 then dec_str (m * 10) 1 else dec_str m k)"
    unfolding fin_repr_def Let_def assms(1) [symmetric] assms(2) [symmetric] assms(3) [symmetric] ..
  show ?thesis
  proof (cases "m = 0")
    case False
    then have "0 < nat \<bar>m\<bar>" by simp
    with False f that(2-4) show ?thesis by (cases "e < -4 \<or> 16 \<le> e"; cases "k = 0") simp_all
  qed (use f that(1) in simp)
qed

text \<open>Whatever form \<open>repr\<close> chooses, \<open>float\<close> reads it back as the number when its
  decimal places were found.\<close>

lemma py_float_fin_repr:
  assumes "is_int_real (x * 10 ^ dec_places x)"
  shows "py_float (fin_repr x) = Some (to_pyfloat x)"
proof -
  define k where "k = dec_places x"
  define m where "m = \<lfloor>x * 10 ^ k\<rfloor>"
  define e where "e = int (length (nat_str (nat \<bar>m\<bar>))) - 1 - int k"
  have x: "x = of_int m / 10 ^ k" using dec_places_exact[OF assms] by (simp add: m_def k_def)
  have sg: "of_int (if m < 0 then -1 else 1) * (real (nat \<bar>m\<bar>) / 10 ^ k) = x"
    using x sign_times_abs[of m] by (simp add: mult.assoc [symmetric])
  show ?thesis
  proof (cases rule: fin_repr_cases [OF k_def m_def e_def, case_names zero sci int dec])
    case zero
    moreover have "dec_str 0 1 = ''0.0''" by code_simp
    ultimately show ?thesis using py_float_dec_text[of 0 1] x by simp
  next
    case sci
    then show ?thesis using py_float_sci[OF sci(1) e_def, of "m < 0"] sg by simp
  next
    case int
    then show ?thesis using py_float_dec_text[of "m * 10" 1] x by simp
  next
    case dec
    then show ?thesis using py_float_dec_text[of m k] x by simp
  qed
qed

lemma dec_places_ok:
  "x = of_int m / 10 ^ k \<Longrightarrow> k \<le> 1074 \<Longrightarrow>
   dec_places x \<le> k \<and> is_int_real (x * 10 ^ dec_places x)"
  unfolding dec_places_def by (rule dec_search_ok) (simp_all add: is_int_real_def)

lemma dec_search_least:
  "k \<le> j \<Longrightarrow> j < dec_search x k \<Longrightarrow> \<not> is_int_real (x * 10 ^ j)"
proof (induction x k rule: dec_search.induct)
  case (1 x k)
  show ?case
  proof (cases "k < 1074 \<and> \<not> is_int_real (x * 10 ^ k)")
    case True
    then show ?thesis
      using "1.IH" "1.prems" by (cases "j = k") (simp_all add: dec_search.simps [of x k])
  next
    case False
    then have "dec_search x k = k" by (simp only: dec_search.simps [of x k] if_not_P if_False)
    with "1.prems" show ?thesis by simp
  qed
qed

subsection \<open>Characters of printed numbers\<close>

definition num_char :: "char \<Rightarrow> bool" where
  "num_char c = (is_digit c \<or> c \<in> set ''-+.einfa'')"

lemma int_str_chars: "\<forall>c \<in> set (int_str i). is_digit c \<or> c = CHR ''-''"
  using nat_str_digits[of "nat \<bar>i\<bar>"] by (auto simp: int_str_def)

lemma num_char_simps: "is_digit c \<Longrightarrow> num_char c" "num_char CHR ''-''" "num_char CHR ''+''"
  "num_char CHR ''.''" "num_char CHR ''e''"
  by (simp_all add: num_char_def)

lemma exp_str_chars: "\<forall>c \<in> set (exp_str e). num_char c"
proof -
  obtain es where "exp_str e = (if e < 0 then ''-'' else ''+'') @ es" "\<forall>c \<in> set es. is_digit c"
    using exp_str_shape[of e] by blast
  then show ?thesis using num_char_simps by auto
qed

lemma dec_str_num_chars: "\<forall>c \<in> set (dec_str m k). num_char c"
  using dec_str_chars[of m k] num_char_simps by blast

lemma strip_zeros_num_chars: "\<forall>c \<in> set (strip_zeros (nat_str n)). num_char c"
  using strip_zeros_digits[OF nat_str_digits[of n]] num_char_simps(1) by blast

lemma sci_text_chars:
  "ds \<noteq> [] \<Longrightarrow>
   set ((if neg then ''-'' else []) @ [hd ds] @ (if tl ds = [] then [] else CHR ''.'' # tl ds) @
        CHR ''e'' # es) \<subseteq> {CHR ''-'', CHR ''.'', CHR ''e''} \<union> set ds \<union> set es"
  by (cases ds) auto

lemma float_repr_chars: "\<forall>c \<in> set (float_repr f). num_char c"
proof (cases f)
  case (Fin x)
  define k where "k = dec_places x"
  define m where "m = \<lfloor>x * 10 ^ k\<rfloor>"
  define e where "e = int (length (nat_str (nat \<bar>m\<bar>))) - 1 - int k"
  have "\<forall>c \<in> set (fin_repr x). num_char c"
  proof (cases rule: fin_repr_cases [OF k_def m_def e_def, case_names zero sci int dec])
    case zero
    then show ?thesis by (simp add: num_char_def is_digit_def)
  next
    case sci
    have "strip_zeros (nat_str (nat \<bar>m\<bar>)) \<noteq> []" using strip_zeros_nat_str[OF sci(1)] by blast
    then have "set (fin_repr x) \<subseteq> {CHR ''-'', CHR ''.'', CHR ''e''} \<union>
                 set (strip_zeros (nat_str (nat \<bar>m\<bar>))) \<union> set (exp_str e)"
      unfolding sci(2) by (rule sci_text_chars)
    then show ?thesis
      using strip_zeros_num_chars[of "nat \<bar>m\<bar>"] exp_str_chars[of e] num_char_simps by blast
  next
    case int
    then show ?thesis using dec_str_num_chars by simp
  next
    case dec
    then show ?thesis using dec_str_num_chars by simp
  qed
  then show ?thesis using Fin by simp
qed (simp_all add: num_char_def is_digit_def)

subsection \<open>Properties of the float printer\<close>

text \<open>Round trip: for every number with a finite decimal expansion (every finite double
  has one, with at most 1074 places) within the double range, \<open>float(repr(x))\<close> is
  \<open>x\<close>: both the positional and the scientific form read back exactly.\<close>

lemma float_repr_roundtrip:
  assumes "x = of_int m / 10 ^ k" and "k \<le> 1074" and "\<bar>x\<bar> < (2::real) ^ 1024 - 2 ^ 970"
  shows "py_float (float_repr (Fin x)) = Some (Fin x)"
  using py_float_fin_repr dec_places_ok[OF assms(1,2)] to_pyfloat_Fin[OF assms(3)] by simp

text \<open>The fuel is enough: the search stops within it on every decimal with at most 1074
  places and finds the least count, so the digits printed are those of the exact value
  with no trailing zero after the point.\<close>

lemma dec_places_least:
  assumes "x = of_int m / 10 ^ k" and "k \<le> 1074"
  shows "dec_places x \<le> k \<and> x = of_int \<lfloor>x * 10 ^ dec_places x\<rfloor> / 10 ^ dec_places x \<and>
         (\<forall>j < dec_places x. \<not> is_int_real (x * 10 ^ j))"
  using dec_places_ok[OF assms] dec_places_exact dec_search_least[of 0] by (auto simp: dec_places_def)

lemma float_repr_nonfinite:
  "py_float (float_repr PInf) = Some PInf \<and> py_float (float_repr NInf) = Some NInf \<and>
   py_float (float_repr NaN) = Some NaN"
  by code_simp

end
