(* ===== verification/Client.thy ===== *)
theory Client
  imports PyRepr PyStr
begin

text \<open>
  The almanac client (src/main.py, lines 146-178): \<open>send_request_moonsun_oneday\<close> and
  \<open>send_request_moonphases\<close>.  Each builds a URL, performs one GET, exits with status 1
  after a message on a status other than 200, and returns \<open>json.loads\<close> of the body.
  The network is a parameter \<open>http\<close>: for a URL, the response (status and the JSON value
  of its text, \<open>None\<close> when the text is not JSON), or \<open>None\<close> when no response arrives,
  where \<open>requests\<close> raises.  The server's reading of a URL is \<open>url_params\<close>: the lemmas
  show that both URLs carry exactly the parameters the service expects, and that the
  coordinates read back from the \<open>coords\<close> parameter are the program's.
\<close>

subsection \<open>Definitions\<close>

record pydate =
  year :: nat
  month :: nat
  day :: nat

record http_resp =
  status_code :: int
  resp_json :: "pyval option"

type_synonym http = "string \<Rightarrow> http_resp option"

text \<open>\<open>f"{date.year}-{date.month}-{date.day}"\<close>: no zero padding.\<close>

definition date_param :: "pydate \<Rightarrow> string" where
  "date_param d = nat_str (year d) @ ''-'' @ nat_str (month d) @ ''-'' @ nat_str (day d)"

definition oneday_base :: string where
  "oneday_base = ''https://aa.usno.navy.mil/api/rstt/oneday''"

definition oneday_url :: "pyfloat \<Rightarrow> pyfloat \<Rightarrow> pydate \<Rightarrow> int \<Rightarrow> string" where
  "oneday_url lat long d tz =
     oneday_base @ ''?coords='' @ float_repr lat @ '','' @ float_repr long @
     ''&date='' @ date_param d @ ''&tz='' @ int_str tz"

definition oneday_error :: string where
  "oneday_error = ''[red] Invalid non-200 api response (moon and sun one day)[/]''"

text \<open>One GET, the status check and \<open>json.loads(resp.text)\<close>.\<close>

definition fetch_json :: "http \<Rightarrow> string \<Rightarrow> string \<Rightarrow> pyval proc" where
  "fetch_json net url err =
     (case net url of
        None \<Rightarrow> ([], Crashed ConnectionError)
      | Some r \<Rightarrow>
          if status_code r \<noteq> 200 then ([err], Exited 1)
          else (case resp_json r of
                  None \<Rightarrow> ([], Crashed JSONDecodeError)
                | Some v \<Rightarrow> ([], Done v)))"

definition send_request_moonsun_oneday :: "http \<Rightarrow> pyfloat \<Rightarrow> pyfloat \<Rightarrow> pydate \<Rightarrow> int \<Rightarrow> pyval proc" where
  "send_request_moonsun_oneday net lat long d tz =
     fetch_json net (oneday_url lat long d tz) oneday_error"

text \<open>\<open>requests.get(url, params)\<close> appends the dict \<open>{"nump": 2, "date": ...}\<close> as a query
  in its order.\<close>

definition phases_base :: string where
  "phases_base = ''https://aa.usno.navy.mil/api/moon/phases/date''"

definition num_phases :: int where
  "num_phases = 2"

definition phases_url :: "pydate \<Rightarrow> string" where
  "phases_url d = phases_base @ ''?nump='' @ int_str num_phases @ ''&date='' @ date_param d"

definition phases_error :: string where
  "phases_error = ''[red]Invalid non-200 api response (phases)[/]''"

definition send_request_moonphases :: "http \<Rightarrow> pydate \<Rightarrow> pyval proc" where
  "send_request_moonphases net d = fetch_json net (phases_url d) phases_error"

subsection \<open>The server's reading of a URL\<close>

text \<open>Path and query split at \<open>?\<close>, parameters at \<open>&\<close>, each at its first \<open>=\<close>.\<close>

definition kv_split :: "string \<Rightarrow> string \<times> string" where
  "kv_split s = (takeWhile (\<lambda>c. c \<noteq> CHR ''='') s, drop 1 (dropWhile (\<lambda>c. c \<noteq> CHR ''='') s))"

definition url_params :: "string \<Rightarrow> (string \<times> (string \<times> string) list) option" where
  "url_params url =
     (case py_split ''?'' url of
        Inr [path, q] \<Rightarrow>
          (case py_split ''&'' q of Inr ps \<Rightarrow> Some (path, map kv_split ps) | Inl _ \<Rightarrow> None)
      | _ \<Rightarrow> None)"

subsection \<open>Characters of the parameters\<close>

lemma date_param_chars: "\<forall>c \<in> set (date_param d). is_digit c \<or> c = CHR ''-''"
  using nat_str_digits[of "year d"] nat_str_digits[of "month d"] nat_str_digits[of "day d"]
  by (auto simp: date_param_def)

lemma num_chars_delim_free:
  assumes "\<forall>c \<in> set s. num_char c"
  shows "CHR ''?'' \<notin> set s \<and> CHR ''&'' \<notin> set s \<and> CHR ''='' \<notin> set s \<and> CHR '','' \<notin> set s"
proof -
  have "\<not> num_char CHR ''?''" "\<not> num_char CHR ''&''" "\<not> num_char CHR ''=''" "\<not> num_char CHR '',''"
    by (simp_all add: num_char_def is_digit_def)
  with assms show ?thesis by blast
qed

lemma digit_chars_delim_free:
  assumes "\<forall>c \<in> set s. is_digit c \<or> c = CHR ''-''"
  shows "CHR ''?'' \<notin> set s \<and> CHR ''&'' \<notin> set s \<and> CHR ''='' \<notin> set s"
proof -
  have "\<not> is_digit CHR ''?''" "\<not> is_digit CHR ''&''" "\<not> is_digit CHR ''=''"
    by (simp_all add: is_digit_def)
  with assms show ?thesis by blast
qed

lemma kv_split_eq: "CHR ''='' \<notin> set k \<Longrightarrow> kv_split (k @ CHR ''='' # v) = (k, v)"
  by (induction k) (auto simp: kv_split_def)

lemma url_params_join:
  assumes "CHR ''?'' \<notin> set base" and "ps \<noteq> []"
    and "\<forall>p \<in> set ps. CHR ''?'' \<notin> set p \<and> CHR ''&'' \<notin> set p"
  shows "url_params (base @ CHR ''?'' # py_join ''&'' ps) = Some (base, map kv_split ps)"
proof -
  have q: "CHR ''?'' \<notin> set (py_join ''&'' ps)"
    using set_py_join[of "''&''" ps] assms(3) by auto
  have "py_split ''?'' (py_join ''?'' [base, py_join ''&'' ps]) = Inr [base, py_join ''&'' ps]"
    using assms(1) q by (intro split_join) simp_all
  moreover have "py_split ''&'' (py_join ''&'' ps) = Inr ps"
    using assms(2,3) by (intro split_join) simp_all
  ultimately show ?thesis by (simp add: url_params_def)
qed

lemmas delim_free = num_chars_delim_free[OF float_repr_chars]
  digit_chars_delim_free[OF date_param_chars] digit_chars_delim_free[OF int_str_chars]

lemma oneday_url_params:
  "url_params (oneday_url lat long d tz) =
     Some (oneday_base, [(''coords'', float_repr lat @ '','' @ float_repr long),
                         (''date'', date_param d), (''tz'', int_str tz)])"
proof -
  let ?ps = "[''coords='' @ float_repr lat @ '','' @ float_repr long, ''date='' @ date_param d,
              ''tz='' @ int_str tz]"
  have u: "oneday_url lat long d tz = oneday_base @ CHR ''?'' # py_join ''&'' ?ps"
    by (simp add: oneday_url_def)
  have b: "CHR ''?'' \<notin> set oneday_base" by (simp add: oneday_base_def)
  have ps: "\<forall>p \<in> set ?ps. CHR ''?'' \<notin> set p \<and> CHR ''&'' \<notin> set p"
    using delim_free(1)[of lat] delim_free(1)[of long] delim_free(2)[of d] delim_free(3)[of tz]
    by simp
  have "url_params (oneday_url lat long d tz) = Some (oneday_base, map kv_split ?ps)"
    unfolding u using url_params_join[OF b _ ps] by simp
  then show ?thesis by (simp add: kv_split_def)
qed

lemma date_param_split:
  "py_split ''-'' (date_param d) = Inr [nat_str (year d), nat_str (month d), nat_str (day d)]"
proof -
  have "CHR ''-'' \<notin> set (nat_str n)" for n
    using nat_str_digits[of n] by (auto simp: is_digit_def)
  then have "py_split ''-'' (py_join ''-'' [nat_str (year d), nat_str (month d), nat_str (day d)]) =
               Inr [nat_str (year d), nat_str (month d), nat_str (day d)]"
    by (intro split_join) simp_all
  then show ?thesis by (simp add: date_param_def)
qed

subsection \<open>Properties of the client\<close>

text \<open>C25 (roundtrip).  The one-day URL carries the parameters \<open>coords\<close>, \<open>date\<close> and
  \<open>tz\<close> in this order, and for coordinates with finite decimal expansions the service,
  splitting \<open>coords\<close> at the comma and reading both parts as floats, gets exactly the
  program's coordinates.\<close>

theorem oneday_coords_roundtrip:
  assumes "x = of_int m / 10 ^ k" and "k \<le> 1074" and "\<bar>x\<bar> < (2::real) ^ 1024 - 2 ^ 970"
    and "y = of_int m' / 10 ^ k'" and "k' \<le> 1074" and "\<bar>y\<bar> < (2::real) ^ 1024 - 2 ^ 970"
  shows "url_params (oneday_url (Fin x) (Fin y) d tz) =
           Some (oneday_base, [(''coords'', float_repr (Fin x) @ '','' @ float_repr (Fin y)),
                               (''date'', date_param d), (''tz'', int_str tz)]) \<and>
         map_sum id (map py_float) (py_split '','' (float_repr (Fin x) @ '','' @ float_repr (Fin y))) =
           Inr [Some (Fin x), Some (Fin y)]"
proof -
  have "py_split '','' (py_join '','' [float_repr (Fin x), float_repr (Fin y)]) =
          Inr [float_repr (Fin x), float_repr (Fin y)]"
    using delim_free(1)[of "Fin x"] delim_free(1)[of "Fin y"] by (intro split_join) simp_all
  then show ?thesis
    using oneday_url_params float_repr_roundtrip[OF assms(1-3)] float_repr_roundtrip[OF assms(4-6)]
    by simp
qed

theorem oneday_coords_roundtrip_witness:
  "url_params (oneday_url (Fin (of_int 421 / 10 ^ 1)) (Fin (of_int (-759) / 10 ^ 1))
      \<lparr>year = 2026, month = 11, day = 9\<rparr> (-5)) =
     Some (oneday_base, [(''coords'', float_repr (Fin (of_int 421 / 10 ^ 1)) @ '','' @
                                      float_repr (Fin (of_int (-759) / 10 ^ 1))),
                         (''date'', date_param \<lparr>year = 2026, month = 11, day = 9\<rparr>),
                         (''tz'', int_str (-5))]) \<and>
   map_sum id (map py_float) (py_split '','' (float_repr (Fin (of_int 421 / 10 ^ 1)) @ '','' @
                                             float_repr (Fin (of_int (-759) / 10 ^ 1)))) =
     Inr [Some (Fin (of_int 421 / 10 ^ 1)), Some (Fin (of_int (-759) / 10 ^ 1))]"
  using oneday_coords_roundtrip[of "of_int 421 / 10 ^ 1" 421 1 "of_int (-759) / 10 ^ 1" "-759" 1
      "\<lparr>year = 2026, month = 11, day = 9\<rparr>" "-5"]
  by simp

text \<open>C26 (roundtrip).  The phases URL carries \<open>nump=2\<close> and the date, and the date
  parameter, split at its dashes, reads back as the year, month and day.\<close>

theorem phases_url_params:
  "url_params (phases_url d) = Some (phases_base, [(''nump'', ''2''), (''date'', date_param d)]) \<and>
   map_sum id (map (digit_fold 0)) (py_split ''-'' (date_param d)) = Inr [year d, month d, day d]"
proof -
  have n: "int_str num_phases = ''2''" unfolding int_str_def num_phases_def by code_simp
  let ?ps = "[''nump='' @ int_str num_phases, ''date='' @ date_param d]"
  have u: "phases_url d = phases_base @ CHR ''?'' # py_join ''&'' ?ps"
    by (simp add: phases_url_def)
  have b: "CHR ''?'' \<notin> set phases_base" by (simp add: phases_base_def)
  have ps: "\<forall>p \<in> set ?ps. CHR ''?'' \<notin> set p \<and> CHR ''&'' \<notin> set p"
    using delim_free(2)[of d] delim_free(3)[of num_phases] by simp
  have "url_params (phases_url d) = Some (phases_base, map kv_split ?ps)"
    unfolding u using url_params_join[OF b _ ps] by simp
  then show ?thesis using n by (simp add: kv_split_def date_param_split digit_fold_nat_str)
qed

text \<open>C27 (error).  A one-day response with a status other than 200 prints the error line
  and exits with status 1, whatever its body.\<close>

theorem oneday_status_error:
  assumes "net (oneday_url lat long d tz) = Some r" and "status_code r \<noteq> 200"
  shows "send_request_moonsun_oneday net lat long d tz = ([oneday_error], Exited 1)"
  using assms by (simp add: send_request_moonsun_oneday_def fetch_json_def)

theorem oneday_status_error_witness:
  "send_request_moonsun_oneday (\<lambda>u. Some \<lparr>status_code = 503, resp_json = None\<rparr>)
     (Fin 0) (Fin 0) \<lparr>year = 2026, month = 11, day = 9\<rparr> (-5) = ([oneday_error], Exited 1)"
  using oneday_status_error[of "\<lambda>u. Some \<lparr>status_code = 503, resp_json = None\<rparr>" "Fin 0" "Fin 0"
      "\<lparr>year = 2026, month = 11, day = 9\<rparr>" "-5" "\<lparr>status_code = 503, resp_json = None\<rparr>"]
  by simp

end
