(* ===== verification/Mapper.thy ===== *)
theory Mapper
  imports PyValue
begin

text \<open>
  The record mapper \<open>format_moon_data\<close> (src/main.py, lines 196-235).  The body of
  its \<open>try\<close> block (\<open>format_try_block\<close>) looks up \<open>moondata\<close> and
  \<open>sundata\<close>, runs one loop over each that assigns a local variable per recognised
  phenomenon (\<open>sun_step\<close>, \<open>moon_step\<close>, threaded through \<open>fmt_locals\<close>, whose
  \<open>None\<close> fields are unbound locals), then builds the output dict (\<open>almanac\<close>)
  field by field in the source's order.  The handler catches \<open>KeyError\<close> only: it
  prints two lines and calls \<open>exit(1)\<close>; every other exception (an unbound local, a
  non-dict event, an empty phase list) escapes.  The lemmas characterise both loops by
  an abstract "last event of that name" function (\<open>phen_time\<close>) and give the result of
  the mapper on every path.
\<close>

subsection \<open>Definitions\<close>

text \<open>The local variables the two loops may bind; \<open>None\<close> is "not yet assigned".\<close>

record fmt_locals =
  sunset_time :: "pyval option"
  sunrise_time :: "pyval option"
  dawn :: "pyval option"
  dusk :: "pyval option"
  moonset_time :: "pyval option"
  moonrise_time :: "pyval option"

definition no_locals :: fmt_locals where
  "no_locals = \<lparr>sunset_time = None, sunrise_time = None, dawn = None, dusk = None,
                moonset_time = None, moonrise_time = None\<rparr>"

text \<open>
  One iteration of \<open>for item in sun_transit\<close> (lines 201-209).  Each \<open>elif\<close> evaluates
  \<open>item["phen"]\<close> again; the lookup has no effect, so it is done once here.  The
  \<open>time\<close> key is read only on a match.
\<close>

definition sun_step :: "fmt_locals \<Rightarrow> pyval \<Rightarrow> fmt_locals res" where
  "sun_step l item =
     rbind (py_getitem_str item ''phen'') (\<lambda>phen.
       if phen = PStr ''Set'' then
         rbind (py_getitem_str item ''time'') (\<lambda>t. Inr (l\<lparr>sunset_time := Some t\<rparr>))
       else if phen = PStr ''Rise'' then
         rbind (py_getitem_str item ''time'') (\<lambda>t. Inr (l\<lparr>sunrise_time := Some t\<rparr>))
       else if phen = PStr ''Begin Civil Twilight'' then
         rbind (py_getitem_str item ''time'') (\<lambda>t. Inr (l\<lparr>dawn := Some t\<rparr>))
       else if phen = PStr ''End Civil Twilight'' then
         rbind (py_getitem_str item ''time'') (\<lambda>t. Inr (l\<lparr>dusk := Some t\<rparr>))
       else Inr l)"

text \<open>One iteration of \<open>for item in moon_transit\<close> (lines 211-215).\<close>

definition moon_step :: "fmt_locals \<Rightarrow> pyval \<Rightarrow> fmt_locals res" where
  "moon_step l item =
     rbind (py_getitem_str item ''phen'') (\<lambda>phen.
       if phen = PStr ''Set'' then
         rbind (py_getitem_str item ''time'') (\<lambda>t. Inr (l\<lparr>moonset_time := Some t\<rparr>))
       else if phen = PStr ''Rise'' then
         rbind (py_getitem_str item ''time'') (\<lambda>t. Inr (l\<lparr>moonrise_time := Some t\<rparr>))
       else Inr l)"

text \<open>Reading a local variable that no branch assigned raises \<open>UnboundLocalError\<close>.\<close>

definition read_local :: "string \<Rightarrow> pyval option \<Rightarrow> pyval res" where
  "read_local name v = (case v of None \<Rightarrow> Inl (UnboundLocalError name) | Some x \<Rightarrow> Inr x)"

text \<open>The dict \<open>out_data\<close>; its keys are fixed, so it is a record.\<close>

record almanac =
  day_of_week :: pyval
  current_phase :: pyval
  fracillum :: pyval
  sunrise :: pyval
  sunset :: pyval
  moonrise :: pyval
  moonset :: pyval
  dawn_time :: pyval
  dusk_time :: pyval
  next_phase :: pyval

text \<open>The \<open>try\<close> block, lines 198-228: a dict display evaluates its values left to right.\<close>

definition format_try_block :: "pyval \<Rightarrow> pyval \<Rightarrow> almanac res" where
  "format_try_block oneday phases =
     rbind (py_getitem_str oneday ''moondata'') (\<lambda>moon_transit.
     rbind (py_getitem_str oneday ''sundata'') (\<lambda>sun_transit.
     rbind (py_iter sun_transit) (\<lambda>sun_items.
     rbind (res_fold sun_step no_locals sun_items) (\<lambda>l1.
     rbind (py_iter moon_transit) (\<lambda>moon_items.
     rbind (res_fold moon_step l1 moon_items) (\<lambda>l.
     rbind (py_getitem_str oneday ''day_of_week'') (\<lambda>dow.
     rbind (py_getitem_str oneday ''curphase'') (\<lambda>cp.
     rbind (py_getitem_str oneday ''fracillum'') (\<lambda>fr.
     rbind (read_local ''sunrise_time'' (sunrise_time l)) (\<lambda>sr.
     rbind (read_local ''sunset_time'' (sunset_time l)) (\<lambda>ss.
     rbind (read_local ''moonrise_time'' (moonrise_time l)) (\<lambda>mr.
     rbind (read_local ''moonset_time'' (moonset_time l)) (\<lambda>ms.
     rbind (read_local ''dawn'' (dawn l)) (\<lambda>dw.
     rbind (read_local ''dusk'' (dusk l)) (\<lambda>dk.
     rbind (py_getitem_int phases 0) (\<lambda>np.
       Inr \<lparr>day_of_week = dow, current_phase = cp, fracillum = fr,
            sunrise = sr, sunset = ss, moonrise = mr, moonset = ms,
            dawn_time = dw, dusk_time = dk, next_phase = np\<rparr>))))))))))))))))"

definition format_error_lines :: "string list" where
  "format_error_lines = [''Error formatting data'', ''<class '' @ [CHR 0x27] @ ''KeyError'' @ [CHR 0x27] @ ''>'']"

text \<open>\<open>except KeyError:\<close> prints the message and the class, then \<open>exit(1)\<close> (lines 230-233).\<close>

definition format_moon_data :: "pyval \<Rightarrow> pyval \<Rightarrow> almanac proc" where
  "format_moon_data oneday phases =
     (case format_try_block oneday phases of
        Inr d \<Rightarrow> ([], Done d)
      | Inl (KeyError k) \<Rightarrow> (format_error_lines, Exited 1)
      | Inl e \<Rightarrow> ([], Crashed e))"

subsection \<open>Abstract view of the event lists\<close>

text \<open>A field of an event object, if the event is a dict that has it.\<close>

fun ev_field :: "string \<Rightarrow> pyval \<Rightarrow> pyval option" where
  "ev_field k (PDict kvs) = map_of kvs k"
| "ev_field k _ = None"

text \<open>An event as the service sends it: a dict with a \<open>phen\<close> and a \<open>time\<close>.\<close>

definition event_ok :: "pyval \<Rightarrow> bool" where
  "event_ok it = (ev_field ''phen'' it \<noteq> None \<and> ev_field ''time'' it \<noteq> None)"

text \<open>The specification of one loop variable: the time of the last event of that name.\<close>

definition phen_time :: "string \<Rightarrow> pyval list \<Rightarrow> pyval option" where
  "phen_time name items =
     (case filter (\<lambda>it. ev_field ''phen'' it = Some (PStr name)) items of
        [] \<Rightarrow> None
      | xs \<Rightarrow> ev_field ''time'' (last xs))"

text \<open>Overwrite a local only when the list has an event of that name.\<close>

definition upd_opt :: "'a option \<Rightarrow> 'a option \<Rightarrow> 'a option" where
  "upd_opt new old = (case new of None \<Rightarrow> old | Some x \<Rightarrow> Some x)"

text \<open>The locals after a whole loop, by the specification: each variable holds the time
  of the last event of its name, or keeps its value when there is none.\<close>

definition sun_post :: "fmt_locals \<Rightarrow> pyval list \<Rightarrow> fmt_locals" where
  "sun_post l items =
     l\<lparr>sunset_time := upd_opt (phen_time ''Set'' items) (sunset_time l),
       sunrise_time := upd_opt (phen_time ''Rise'' items) (sunrise_time l),
       dawn := upd_opt (phen_time ''Begin Civil Twilight'' items) (dawn l),
       dusk := upd_opt (phen_time ''End Civil Twilight'' items) (dusk l)\<rparr>"

definition moon_post :: "fmt_locals \<Rightarrow> pyval list \<Rightarrow> fmt_locals" where
  "moon_post l items =
     l\<lparr>moonset_time := upd_opt (phen_time ''Set'' items) (moonset_time l),
       moonrise_time := upd_opt (phen_time ''Rise'' items) (moonrise_time l)\<rparr>"

subsection \<open>A sample response\<close>

text \<open>The shape of the service's one-day and phases answers, for the witnesses.\<close>

definition ev :: "string \<Rightarrow> string \<Rightarrow> pyval" where
  "ev p t = PDict [(''phen'', PStr p), (''time'', PStr t)]"

definition sample_oneday :: pyval where
  "sample_oneday = PDict
     [(''closestphase'', PDict [(''phase'', PStr ''First Quarter'')]),
      (''curphase'', PStr ''First Quarter''),
      (''day_of_week'', PStr ''Monday''),
      (''fracillum'', PStr ''52%''),
      (''moondata'', PList [ev ''Rise'' ''12:31'', ev ''Upper Transit'' ''17:40'', ev ''Set'' ''23:02'']),
      (''sundata'', PList [ev ''Begin Civil Twilight'' ''06:12'', ev ''Rise'' ''06:41'',
         ev ''Upper Transit'' ''11:43'', ev ''Set'' ''16:45'', ev ''End Civil Twilight'' ''17:14''])]"

definition sample_next :: pyval where
  "sample_next = PDict [(''day'', PInt 24), (''month'', PInt 11), (''phase'', PStr ''Full Moon''),
                        (''time'', PStr ''09:15''), (''year'', PInt 2026)]"

definition sample_phases :: pyval where
  "sample_phases = PList [sample_next, PDict [(''phase'', PStr ''Last Quarter'')]]"

subsection \<open>The loops against their specification\<close>

lemma upd_opt_assoc: "upd_opt a (upd_opt b c) = upd_opt (upd_opt a b) c"
  by (simp add: upd_opt_def split: option.splits)

lemma upd_opt_None [simp]: "upd_opt None c = c"
  by (simp add: upd_opt_def)

lemma upd_opt_Some [simp]: "upd_opt (Some x) c = Some x"
  by (simp add: upd_opt_def)

lemma getitem_ev_field: "ev_field k it = Some v \<Longrightarrow> py_getitem_str it k = Inr v"
  by (cases it) auto

lemma phen_time_single:
  "phen_time n [it] = (if ev_field ''phen'' it = Some (PStr n) then ev_field ''time'' it else None)"
  by (simp add: phen_time_def)

lemma phen_time_Cons:
  assumes "\<forall>x \<in> set its. event_ok x"
  shows "phen_time n (it # its) =
           upd_opt (phen_time n its)
             (if ev_field ''phen'' it = Some (PStr n) then ev_field ''time'' it else None)"
proof (cases "filter (\<lambda>x. ev_field ''phen'' x = Some (PStr n)) its")
  case Nil
  then show ?thesis by (simp add: phen_time_def)
next
  case (Cons y ys)
  have "last (y # ys) \<in> set its"
    using filter_is_subset[of "\<lambda>x. ev_field ''phen'' x = Some (PStr n)" its] Cons
      last_in_set[of "y # ys"] by auto
  with assms obtain t where "ev_field ''time'' (last (y # ys)) = Some t"
    by (auto simp: event_ok_def)
  with Cons show ?thesis by (simp add: phen_time_def upd_opt_def)
qed

lemma event_ok_E:
  assumes "event_ok it"
  obtains p t where "ev_field ''phen'' it = Some p" and "ev_field ''time'' it = Some t"
  using assms by (auto simp: event_ok_def)

lemma sun_step_ok:
  assumes "event_ok it"
  shows "sun_step l it = Inr (sun_post l [it])"
proof -
  obtain p t where p: "ev_field ''phen'' it = Some p" and t: "ev_field ''time'' it = Some t"
    using assms by (rule event_ok_E)
  then have g: "py_getitem_str it ''phen'' = Inr p" "py_getitem_str it ''time'' = Inr t"
    by (simp_all add: getitem_ev_field)
  consider "p = PStr ''Set''" | "p = PStr ''Rise''" | "p = PStr ''Begin Civil Twilight''"
    | "p = PStr ''End Civil Twilight''"
    | "p \<notin> {PStr ''Set'', PStr ''Rise'', PStr ''Begin Civil Twilight'', PStr ''End Civil Twilight''}"
    by blast
  then show ?thesis
    by cases (simp_all add: sun_step_def sun_post_def phen_time_single p t g)
qed

lemma moon_step_ok:
  assumes "event_ok it"
  shows "moon_step l it = Inr (moon_post l [it])"
proof -
  obtain p t where p: "ev_field ''phen'' it = Some p" and t: "ev_field ''time'' it = Some t"
    using assms by (rule event_ok_E)
  then have g: "py_getitem_str it ''phen'' = Inr p" "py_getitem_str it ''time'' = Inr t"
    by (simp_all add: getitem_ev_field)
  consider "p = PStr ''Set''" | "p = PStr ''Rise''" | "p \<notin> {PStr ''Set'', PStr ''Rise''}"
    by blast
  then show ?thesis
    by cases (simp_all add: moon_step_def moon_post_def phen_time_single p t g)
qed

lemma sun_post_Cons:
  "\<forall>x \<in> set its. event_ok x \<Longrightarrow> sun_post (sun_post l [it]) its = sun_post l (it # its)"
  by (simp add: sun_post_def phen_time_Cons phen_time_single upd_opt_assoc)

lemma moon_post_Cons:
  "\<forall>x \<in> set its. event_ok x \<Longrightarrow> moon_post (moon_post l [it]) its = moon_post l (it # its)"
  by (simp add: moon_post_def phen_time_Cons phen_time_single upd_opt_assoc)

lemma sun_loop:
  "\<forall>x \<in> set items. event_ok x \<Longrightarrow> res_fold sun_step l items = Inr (sun_post l items)"
proof (induction items arbitrary: l)
  case Nil
  then show ?case by (simp add: sun_post_def phen_time_def)
next
  case (Cons it its)
  then show ?case by (simp add: sun_step_ok sun_post_Cons)
qed

lemma moon_loop:
  "\<forall>x \<in> set items. event_ok x \<Longrightarrow> res_fold moon_step l items = Inr (moon_post l items)"
proof (induction items arbitrary: l)
  case Nil
  then show ?case by (simp add: moon_post_def phen_time_def)
next
  case (Cons it its)
  then show ?case by (simp add: moon_step_ok moon_post_Cons)
qed

lemma read_local_simps [simp]:
  "read_local n None = Inl (UnboundLocalError n)" "read_local n (Some x) = Inr x"
  by (simp_all add: read_local_def)

lemma upd_opt_None_right [simp]: "upd_opt x None = x"
  by (simp add: upd_opt_def split: option.splits)

lemma moon_step_frame:
  "moon_step l it = Inr l' \<Longrightarrow>
   sunset_time l' = sunset_time l \<and> sunrise_time l' = sunrise_time l \<and> dawn l' = dawn l \<and> dusk l' = dusk l"
  by (auto simp: moon_step_def rbind_eq_Inr split: if_splits)

subsection \<open>Properties of the mapper\<close>

text \<open>C1 (functional).  When the one-day object holds \<open>moondata\<close> and \<open>sundata\<close> lists of
  well-formed events, the three top-level fields, and each of the six phenomena at least
  once, and the phase list is non-empty, \<open>format_moon_data\<close> prints nothing and returns
  the record whose six time fields are the times of the last event of each name, whose
  other fields are copied from the object, and whose next phase is the first element of
  the phase list.\<close>
theorem format_moon_data_ok:
  assumes "py_getitem_str oneday ''moondata'' = Inr (PList moon)"
    and "py_getitem_str oneday ''sundata'' = Inr (PList sun)"
    and "py_getitem_str oneday ''day_of_week'' = Inr dow"
    and "py_getitem_str oneday ''curphase'' = Inr cp"
    and "py_getitem_str oneday ''fracillum'' = Inr fr"
    and "\<forall>it \<in> set sun. event_ok it" and "\<forall>it \<in> set moon. event_ok it"
    and "phen_time ''Rise'' sun = Some sr" and "phen_time ''Set'' sun = Some ss"
    and "phen_time ''Begin Civil Twilight'' sun = Some dw"
    and "phen_time ''End Civil Twilight'' sun = Some dk"
    and "phen_time ''Rise'' moon = Some mr" and "phen_time ''Set'' moon = Some ms"
  shows "format_moon_data oneday (PList (np # rest)) =
           ([], Done \<lparr>day_of_week = dow, current_phase = cp, fracillum = fr,
                      sunrise = sr, sunset = ss, moonrise = mr, moonset = ms,
                      dawn_time = dw, dusk_time = dk, next_phase = np\<rparr>)"
  using assms
  by (simp add: format_moon_data_def format_try_block_def sun_loop moon_loop
                sun_post_def moon_post_def no_locals_def py_index_def)

theorem format_moon_data_ok_witness:
  "format_moon_data sample_oneday sample_phases =
     ([], Done \<lparr>day_of_week = PStr ''Monday'', current_phase = PStr ''First Quarter'',
                fracillum = PStr ''52%'', sunrise = PStr ''06:41'', sunset = PStr ''16:45'',
                moonrise = PStr ''12:31'', moonset = PStr ''23:02'', dawn_time = PStr ''06:12'',
                dusk_time = PStr ''17:14'', next_phase = sample_next\<rparr>)"
  using format_moon_data_ok[of sample_oneday]
  by (simp add: sample_oneday_def sample_phases_def ev_def event_ok_def phen_time_def)

text \<open>C2 (error).  When the lists are well formed but one of the six phenomena is absent,
  the mapper does not reach its \<open>KeyError\<close> handler: reading the never-assigned local
  raises \<open>UnboundLocalError\<close>, which ends the process with a traceback and no message of
  its own.\<close>
theorem format_missing_phen:
  assumes "py_getitem_str oneday ''moondata'' = Inr (PList moon)"
    and "py_getitem_str oneday ''sundata'' = Inr (PList sun)"
    and "py_getitem_str oneday ''day_of_week'' = Inr dow"
    and "py_getitem_str oneday ''curphase'' = Inr cp"
    and "py_getitem_str oneday ''fracillum'' = Inr fr"
    and "\<forall>it \<in> set sun. event_ok it" and "\<forall>it \<in> set moon. event_ok it"
    and "(\<exists>n \<in> {''Rise'', ''Set'', ''Begin Civil Twilight'', ''End Civil Twilight''}.
            phen_time n sun = None)
         \<or> (\<exists>n \<in> {''Rise'', ''Set''}. phen_time n moon = None)"
  shows "\<exists>v. format_moon_data oneday phases = ([], Crashed (UnboundLocalError v))"
  using assms
  by (auto simp: format_moon_data_def format_try_block_def sun_loop moon_loop
                 sun_post_def moon_post_def no_locals_def read_local_def upd_opt_def
           split: option.splits)

theorem format_missing_phen_witness:
  "\<exists>v. format_moon_data
         (PDict [(''moondata'', PList [ev ''Rise'' ''12:31'', ev ''Set'' ''23:02'']),
                 (''sundata'', PList [ev ''Set'' ''16:45'', ev ''End Civil Twilight'' ''17:14'']),
                 (''day_of_week'', PStr ''Monday''), (''curphase'', PStr ''Full Moon''),
                 (''fracillum'', PStr ''99%'')])
         sample_phases = ([], Crashed (UnboundLocalError v))"
  using format_missing_phen[where moon = "[ev ''Rise'' ''12:31'', ev ''Set'' ''23:02'']"
      and sun = "[ev ''Set'' ''16:45'', ev ''End Civil Twilight'' ''17:14'']"
      and dow = "PStr ''Monday''" and cp = "PStr ''Full Moon''" and fr = "PStr ''99%''"]
  by (simp add: ev_def event_ok_def phen_time_def)

text \<open>C7 (refinement).  The sun loop, started from no bound locals on well-formed events,
  leaves each of its four locals equal to the time of the last event of its name (unbound
  when there is none): the loop implements the "last one wins" specification
  \<open>phen_time\<close>.\<close>
theorem sun_loop_spec:
  assumes "\<forall>it \<in> set items. event_ok it"
  shows "res_fold sun_step no_locals items =
           Inr (no_locals\<lparr>sunset_time := phen_time ''Set'' items,
                          sunrise_time := phen_time ''Rise'' items,
                          dawn := phen_time ''Begin Civil Twilight'' items,
                          dusk := phen_time ''End Civil Twilight'' items\<rparr>)"
  using assms by (simp add: sun_loop sun_post_def no_locals_def)

theorem sun_loop_spec_witness:
  "res_fold sun_step no_locals [ev ''Rise'' ''06:41'', ev ''Set'' ''16:45''] =
     Inr (no_locals\<lparr>sunset_time := Some (PStr ''16:45''), sunrise_time := Some (PStr ''06:41'')\<rparr>)"
  using sun_loop_spec[of "[ev ''Rise'' ''06:41'', ev ''Set'' ''16:45'']"]
  by (simp add: ev_def event_ok_def phen_time_def no_locals_def)

text \<open>C8 (invariant).  Whatever the events, a moon loop that completes leaves the four sun
  locals as they were: the second loop cannot overwrite what the first found.\<close>
theorem moon_loop_frame:
  assumes "res_fold moon_step l items = Inr l'"
  shows "sunset_time l' = sunset_time l \<and> sunrise_time l' = sunrise_time l \<and>
         dawn l' = dawn l \<and> dusk l' = dusk l"
  using assms
proof (induction items arbitrary: l)
  case Nil
  then show ?case by simp
next
  case (Cons it its)
  then obtain l1 where s: "moon_step l it = Inr l1" and r: "res_fold moon_step l1 its = Inr l'"
    by auto
  from moon_step_frame[OF s] Cons.IH[OF r] show ?case by simp
qed

theorem moon_loop_frame_witness:
  "res_fold moon_step (no_locals\<lparr>dawn := Some (PStr ''06:12'')\<rparr>) [ev ''Set'' ''23:02''] =
     Inr (no_locals\<lparr>dawn := Some (PStr ''06:12''), moonset_time := Some (PStr ''23:02'')\<rparr>) \<and>
   dawn (no_locals\<lparr>dawn := Some (PStr ''06:12''), moonset_time := Some (PStr ''23:02'')\<rparr>) =
     Some (PStr ''06:12'')"
  using moon_loop_frame[of "no_locals\<lparr>dawn := Some (PStr ''06:12'')\<rparr>" "[ev ''Set'' ''23:02'']"
      "no_locals\<lparr>dawn := Some (PStr ''06:12''), moonset_time := Some (PStr ''23:02'')\<rparr>"]
  by (simp add: moon_step_def ev_def)

text \<open>C11 (error).  A one-day object without \<open>moondata\<close> is caught by the handler: the
  mapper prints its two lines and exits with status 1.\<close>
theorem format_missing_key:
  assumes "map_of kvs ''moondata'' = None"
  shows "format_moon_data (PDict kvs) phases = (format_error_lines, Exited 1)"
  using assms by (simp add: format_moon_data_def format_try_block_def)

theorem format_missing_key_witness:
  "map_of [(''sundata'', PList [])] ''moondata'' = None \<and>
   format_moon_data (PDict [(''sundata'', PList [])]) sample_phases = (format_error_lines, Exited 1)"
  using format_missing_key[of "[(''sundata'', PList [])]" sample_phases] by simp

text \<open>C12 (error).  If the mapper succeeds with some phase list, then with an empty phase
  list it fails with an \<open>IndexError\<close> that the \<open>KeyError\<close> handler does not catch.\<close>
theorem format_empty_phases:
  assumes "format_try_block oneday (PList (np # rest)) = Inr d"
  shows "format_moon_data oneday (PList []) = ([], Crashed IndexError)"
  using assms by (auto simp: format_moon_data_def format_try_block_def py_index_def)

theorem format_empty_phases_witness:
  "format_moon_data sample_oneday (PList []) = ([], Crashed IndexError)"
proof -
  have "format_try_block sample_oneday (PList [sample_next]) \<noteq> Inl IndexError"
    by (simp add: format_try_block_def sample_oneday_def ev_def sun_step_def moon_step_def no_locals_def py_index_def)
  then obtain d where "format_try_block sample_oneday (PList [sample_next]) = Inr d"
    by (cases "format_try_block sample_oneday (PList [sample_next])")
       (auto simp: format_try_block_def sample_oneday_def ev_def sun_step_def moon_step_def no_locals_def py_index_def)
  then show ?thesis by (rule format_empty_phases)
qed

text \<open>C13 (error).  An event that is not a JSON object at the head of \<open>sundata\<close> raises a
  \<open>TypeError\<close> that escapes the handler.\<close>
theorem format_bad_event:
  assumes "py_getitem_str oneday ''moondata'' = Inr m"
    and "py_getitem_str oneday ''sundata'' = Inr (PList (x # xs))"
    and "\<forall>kvs. x \<noteq> PDict kvs"
  shows "format_moon_data oneday phases = ([], Crashed TypeError)"
proof -
  have "sun_step no_locals x = Inl TypeError"
    using assms(3) by (cases x) (simp_all add: sun_step_def)
  with assms(1,2) show ?thesis by (simp add: format_moon_data_def format_try_block_def)
qed

theorem format_bad_event_witness:
  "format_moon_data (PDict [(''moondata'', PList []), (''sundata'', PList [PStr ''Rise''])]) sample_phases =
     ([], Crashed TypeError)"
  using format_bad_event[of "PDict [(''moondata'', PList []), (''sundata'', PList [PStr ''Rise''])]"]
  by simp

end
