(* ===== verification/Display.thy ===== *)
theory Display
  imports Client Mapper
begin

text \<open>
  What croon prints: the usage message \<open>print_usage_msg\<close> (src/main.py, lines 109-111),
  the right pane's text \<open>text_to_display\<close> built in \<open>main\<close> (lines 44-60), and the
  two-column layout of \<open>print_rich_console\<close> (lines 181-193).  Printed strings are Rich
  markup; Rich's tag scanner is modelled (\<open>tag_at\<close>, after the pattern
  \<open>(\\*)\[[a-z#/@][^[]*?]\<close> of \<open>rich.markup\<close>) with the plain text a reader sees
  (\<open>markup_plain\<close>) and \<open>rich.markup.escape\<close> (\<open>rich_escape\<close>).  Rich's styling and
  the painting of the layout are not modelled: the layout is the record of the sizes and
  texts handed to Rich.
\<close>

subsection \<open>Rich markup\<close>

definition tag_start :: "char \<Rightarrow> bool" where
  "tag_start c = (c \<in> set ''abcdefghijklmnopqrstuvwxyz#/@'')"

text \<open>\<open>[^[]*?]\<close>: the text up to and including the first \<open>]\<close>, with no \<open>[\<close> before it.\<close>

fun tag_body :: "string \<Rightarrow> (string \<times> string) option" where
  "tag_body [] = None"
| "tag_body (c # cs) =
     (if c = CHR '']'' then Some ([c], cs)
      else if c = CHR ''['' then None
      else map_option (\<lambda>(b, r). (c # b, r)) (tag_body cs))"

text \<open>A match at the start of the text: its backslashes, the tag, the rest.\<close>

definition tag_at :: "string \<Rightarrow> (string \<times> string \<times> string) option" where
  "tag_at s =
     (let bs = takeWhile (\<lambda>c. c = CHR 0x5C) s in
      case dropWhile (\<lambda>c. c = CHR 0x5C) s of
        c1 # c2 # cs \<Rightarrow>
          if c1 = CHR ''['' \<and> tag_start c2
          then map_option (\<lambda>(b, r). (bs, c1 # c2 # b, r)) (tag_body cs) else None
      | _ \<Rightarrow> None)"

text \<open>\<open>re.finditer\<close> and \<open>re.sub\<close> with this pattern: at a match \<open>f\<close> gives the
  text for its backslashes and tag and the scan goes on after it; elsewhere one
  character is kept.\<close>

function tag_scan :: "(string \<Rightarrow> string \<Rightarrow> string) \<Rightarrow> string \<Rightarrow> string" where
  "tag_scan f [] = []"
| "tag_scan f (c # cs) =
     (case tag_at (c # cs) of
        Some (bs, t, r) \<Rightarrow> f bs t @ tag_scan f r
      | None \<Rightarrow> c # tag_scan f cs)"
  by pat_completeness auto
termination
proof (relation "measure (\<lambda>(f, s). length s)")
  have tb: "tag_body u = Some (b, v) \<Longrightarrow> length v < length u" for u b v
    by (induction u arbitrary: b v) (auto split: if_splits)
  have dw: "length (dropWhile P u) \<le> length u" for P and u :: string
    by (rule length_dropWhile_le)
  have sh: "tag_at s = Some (bs, t, r) \<Longrightarrow> length r < length s" for s bs t r
    using tb dw[of "\<lambda>c. c = CHR 0x5C" s] by (fastforce simp: tag_at_def Let_def split: list.splits if_splits)
  show "((f, r), f, c # cs) \<in> measure (\<lambda>(f, s). length s)"
    if "tag_at (c # cs) = Some x2" "(bs, y) = x2" "(t, r) = y" for f c cs x2 bs y t r
    using that sh[of "c # cs" bs t r] by simp
qed simp_all

text \<open>The plain text of markup (\<open>rich.markup.render\<close>): a tag after an even run of
  backslashes is removed, after an odd run it is literal; each pair of backslashes before
  a tag is one backslash.\<close>

definition markup_plain :: "string \<Rightarrow> string" where
  "markup_plain s =
     tag_scan (\<lambda>bs t. replicate (length bs div 2) (CHR 0x5C) @ (if odd (length bs) then t else [])) s"

text \<open>\<open>rich.markup.escape\<close>: a backslash before every tag (doubling the backslashes in
  front of it), and one after a single trailing backslash.\<close>

definition rich_escape_sub :: "string \<Rightarrow> string" where
  "rich_escape_sub s = tag_scan (\<lambda>bs t. bs @ bs @ CHR 0x5C # t) s"

definition rich_escape :: "string \<Rightarrow> string" where
  "rich_escape s =
     (let t = rich_escape_sub s in
      if t \<noteq> [] \<and> last t = CHR 0x5C \<and> \<not> (2 \<le> length t \<and> last (butlast t) = CHR 0x5C)
      then t @ [CHR 0x5C] else t)"

subsection \<open>The usage message\<close>

definition print_usage_msg :: "string list" where
  "print_usage_msg =
     [''[bold medium_purple3]croon[/] - a terminal lunar/solar information display'',
      ''[bold blue]Usage: [/][blue]croon -c '' @ rich_escape ''[[latitude],[longitude]]'']"

subsection \<open>The right pane\<close>

definition style :: string where
  "style = ''[bold medium_purple]''"

definition end_style :: string where
  "end_style = ''[/]''"

text \<open>The fifth line subscripts \<open>data['next_phase']\<close>, the phase-data record, five times
  left to right; a missing key raises \<open>KeyError\<close>, a value that is not an object
  \<open>TypeError\<close>.  No other line can raise.\<close>

definition next_phase_line :: "pyval \<Rightarrow> string res" where
  "next_phase_line np =
     rbind (py_getitem_str np ''phase'') (\<lambda>ph.
     rbind (py_getitem_str np ''month'') (\<lambda>mo.
     rbind (py_getitem_str np ''day'') (\<lambda>dy.
     rbind (py_getitem_str np ''year'') (\<lambda>yr.
     rbind (py_getitem_str np ''time'') (\<lambda>tm.
       Inr (style @ ''Next Phase: '' @ end_style @ py_str ph @ '' '' @ py_str mo @ ''/'' @
            py_str dy @ ''/'' @ py_str yr @ '' '' @ py_str tm))))))"

text \<open>The keys of the next-phase record, in the order the fifth line reads them.\<close>

definition np_keys :: "string list" where
  "np_keys = [''phase'', ''month'', ''day'', ''year'', ''time'']"

definition display_lines :: "pydate \<Rightarrow> pyfloat \<Rightarrow> pyfloat \<Rightarrow> almanac \<Rightarrow> string list res" where
  "display_lines d lat long data =
     rbind (next_phase_line (next_phase data)) (\<lambda>np.
       Inr [style @ ''Date:'' @ end_style @ '' '' @ py_str (day_of_week data) @ '' '' @
              nat_str (month d) @ ''/'' @ nat_str (day d) @ ''/'' @ nat_str (year d),
            style @ ''Coordinates: '' @ end_style @ float_repr lat @ '', '' @ float_repr long,
            style @ ''Current Phase:'' @ end_style @ '' '' @ py_str (current_phase data),
            style @ ''Fracillum:'' @ end_style @ '' '' @ py_str (fracillum data),
            np,
            style @ ''Moonrise:'' @ end_style @ '' '' @ py_str (moonrise data),
            style @ ''Moonset:'' @ end_style @ '' '' @ py_str (moonset data),
            style @ ''Sunrise:'' @ end_style @ '' '' @ py_str (sunrise data),
            style @ ''Sunset:'' @ end_style @ '' '' @ py_str (sunset data),
            style @ ''Dawn:'' @ end_style @ '' '' @ py_str (dawn_time data),
            style @ ''Dusk:'' @ end_style @ '' '' @ py_str (dusk_time data)])"

definition text_to_display :: "pydate \<Rightarrow> pyfloat \<Rightarrow> pyfloat \<Rightarrow> almanac \<Rightarrow> string res" where
  "text_to_display d lat long data =
     rbind (display_lines d lat long data) (\<lambda>ls. Inr (py_join ''\<newline>'' ls))"

subsection \<open>The layout\<close>

text \<open>\<open>Console(height=14)\<close>, a root \<open>Layout(size=10)\<close> split into a row of the art
  (after a newline) and the text, sized 30 and \<open>term_width - 30\<close>.\<close>

record panel =
  console_height :: int
  root_size :: int
  left_text :: string
  right_text :: string
  left_size :: int
  right_size :: int

definition print_rich_console :: "string \<Rightarrow> string \<Rightarrow> int \<Rightarrow> int \<Rightarrow> panel" where
  "print_rich_console moon_art text term_width term_height =
     \<lparr>console_height = term_height, root_size = 10, left_text = CHR 0x0A # moon_art,
      right_text = text, left_size = 30, right_size = term_width - 30\<rparr>"

text \<open>A record as the mapper returns it, for the examples.\<close>

definition sample_almanac :: almanac where
  "sample_almanac =
     \<lparr>day_of_week = PStr ''Monday'', current_phase = PStr ''First Quarter'',
      fracillum = PStr ''52%'', sunrise = PStr ''06:41'', sunset = PStr ''16:45'',
      moonrise = PStr ''12:31'', moonset = PStr ''23:02'', dawn_time = PStr ''06:12'',
      dusk_time = PStr ''17:14'', next_phase = sample_next\<rparr>"

subsection \<open>Plain text of markup\<close>

lemma tag_at_plain: "c \<noteq> CHR ''['' \<Longrightarrow> c \<noteq> CHR 0x5C \<Longrightarrow> tag_at (c # s) = None"
  by (cases s) (simp_all add: tag_at_def)

lemma markup_plain_Nil [simp]: "markup_plain [] = []"
  by (simp add: markup_plain_def)

lemma markup_plain_Cons_plain [simp]:
  "c \<noteq> CHR ''['' \<Longrightarrow> c \<noteq> CHR 0x5C \<Longrightarrow> markup_plain (c # s) = c # markup_plain s"
  by (simp add: markup_plain_def tag_at_plain)

lemma markup_plain_append_plain:
  assumes "CHR ''['' \<notin> set xs" and "CHR 0x5C \<notin> set xs"
  shows "markup_plain (xs @ s) = xs @ markup_plain s"
  using assms
proof (induction xs)
  case (Cons a xs)
  then have "a \<noteq> CHR ''['' " "a \<noteq> CHR 0x5C" by auto
  with Cons show ?case by simp
qed simp

lemma markup_plain_id: "CHR ''['' \<notin> set s \<Longrightarrow> CHR 0x5C \<notin> set s \<Longrightarrow> markup_plain s = s"
  using markup_plain_append_plain[of s "[]"] by simp

lemma markup_plain_tag:
  assumes c: "tag_start c" and b: "CHR ''['' \<notin> set b" "CHR '']'' \<notin> set b"
  shows "markup_plain ((CHR ''['' # c # b @ '']'') @ s) = markup_plain s"
proof -
  have "tag_body (b @ CHR '']'' # s) = Some (b @ '']'', s)"
    using b by (induction b) auto
  then have "tag_at (CHR ''['' # c # b @ CHR '']'' # s) = Some ([], CHR ''['' # c # b @ '']'', s)"
    using c by (simp add: tag_at_def)
  then show ?thesis by (simp add: markup_plain_def)
qed

lemma style_plain [simp]: "markup_plain (style @ s) = markup_plain s"
proof -
  have "style = CHR ''['' # CHR ''b'' # ''old medium_purple'' @ '']''" by (simp add: style_def)
  then show ?thesis using markup_plain_tag[of "CHR ''b''" "''old medium_purple''" s]
    by (simp add: tag_start_def)
qed

lemma end_style_plain [simp]: "markup_plain (end_style @ s) = markup_plain s"
  using markup_plain_tag[of "CHR ''/''" "[]" s] by (simp add: end_style_def tag_start_def)

lemma float_repr_markup_free: "CHR ''['' \<notin> set (float_repr f) \<and> CHR 0x5C \<notin> set (float_repr f)"
proof -
  have "\<not> num_char CHR ''['' \<and> \<not> num_char CHR 0x5C" by (simp add: num_char_def is_digit_def)
  then show ?thesis using float_repr_chars[of f] by blast
qed

lemma coords_plain:
  "markup_plain (float_repr lat @ '', '' @ float_repr long) = float_repr lat @ '', '' @ float_repr long"
  using float_repr_markup_free[of lat] float_repr_markup_free[of long] by (intro markup_plain_id) auto

subsection \<open>Properties of the display\<close>

text \<open>C28 (functional).  When the next-phase record has its five keys, the right pane is
  eleven lines joined by newlines, which read, in order: the date (weekday and
  \<open>month/day/year\<close>), the coordinates as printed by \<open>repr\<close>, the current phase, the
  illuminated fraction, the next phase with its date and time, moonrise, moonset, sunrise,
  sunset, dawn and dusk, each after its label (\<open>text_to_display\<close> joins them with
  newlines).\<close>

theorem display_text_lines:
  assumes "py_getitem_str (next_phase data) ''phase'' = Inr ph"
    and "py_getitem_str (next_phase data) ''month'' = Inr mo"
    and "py_getitem_str (next_phase data) ''day'' = Inr dy"
    and "py_getitem_str (next_phase data) ''year'' = Inr yr"
    and "py_getitem_str (next_phase data) ''time'' = Inr tm"
  shows "map_sum id (map markup_plain) (display_lines d lat long data) =
      Inr [''Date: '' @ markup_plain (py_str (day_of_week data) @ '' '' @ nat_str (month d) @ ''/'' @
                                  nat_str (day d) @ ''/'' @ nat_str (year d)),
       ''Coordinates: '' @ float_repr lat @ '', '' @ float_repr long,
       ''Current Phase: '' @ markup_plain (py_str (current_phase data)),
       ''Fracillum: '' @ markup_plain (py_str (fracillum data)),
       ''Next Phase: '' @ markup_plain (py_str ph @ '' '' @ py_str mo @ ''/'' @ py_str dy @ ''/'' @
                                        py_str yr @ '' '' @ py_str tm),
       ''Moonrise: '' @ markup_plain (py_str (moonrise data)),
       ''Moonset: '' @ markup_plain (py_str (moonset data)),
       ''Sunrise: '' @ markup_plain (py_str (sunrise data)),
       ''Sunset: '' @ markup_plain (py_str (sunset data)),
       ''Dawn: '' @ markup_plain (py_str (dawn_time data)),
       ''Dusk: '' @ markup_plain (py_str (dusk_time data))]"
  using assms coords_plain[of lat long] by (simp add: display_lines_def next_phase_line_def)

theorem display_text_lines_witness:
  "map_sum id (map markup_plain) (display_lines \<lparr>year = 2026, month = 11, day = 9\<rparr> (Fin 0) (Fin 0)
     sample_almanac) =
   Inr [''Date: '' @ markup_plain (py_str (day_of_week sample_almanac) @ '' '' @ nat_str 11 @ ''/'' @
                                   nat_str 9 @ ''/'' @ nat_str 2026),
        ''Coordinates: '' @ float_repr (Fin 0) @ '', '' @ float_repr (Fin 0),
        ''Current Phase: '' @ markup_plain (py_str (current_phase sample_almanac)),
        ''Fracillum: '' @ markup_plain (py_str (fracillum sample_almanac)),
        ''Next Phase: '' @ markup_plain (py_str (PStr ''Full Moon'') @ '' '' @ py_str (PInt 11) @ ''/'' @
                                         py_str (PInt 24) @ ''/'' @ py_str (PInt 2026) @ '' '' @
                                         py_str (PStr ''09:15'')),
        ''Moonrise: '' @ markup_plain (py_str (moonrise sample_almanac)),
        ''Moonset: '' @ markup_plain (py_str (moonset sample_almanac)),
        ''Sunrise: '' @ markup_plain (py_str (sunrise sample_almanac)),
        ''Sunset: '' @ markup_plain (py_str (sunset sample_almanac)),
        ''Dawn: '' @ markup_plain (py_str (dawn_time sample_almanac)),
        ''Dusk: '' @ markup_plain (py_str (dusk_time sample_almanac))]"
  using display_text_lines[of sample_almanac "PStr ''Full Moon''" "PInt 11" "PInt 24" "PInt 2026"
      "PStr ''09:15''" "\<lparr>year = 2026, month = 11, day = 9\<rparr>" "Fin 0" "Fin 0"]
  by (simp add: sample_almanac_def sample_next_def)

text \<open>C29 (error).  The five subscripts of the next-phase record run in the order
  \<open>phase\<close>, \<open>month\<close>, \<open>day\<close>, \<open>year\<close>, \<open>time\<close>: the first key missing from the record is
  the one the \<open>KeyError\<close> names, and no text is produced.\<close>

theorem next_phase_first_missing:
  assumes "next_phase data = PDict kvs" and "k \<in> set np_keys" and "map_of kvs k = None"
    and "\<forall>j \<in> set (takeWhile (\<lambda>j. j \<noteq> k) np_keys). map_of kvs j \<noteq> None"
  shows "text_to_display d lat long data = Inl (KeyError (KStr k))"
proof -
  from assms(2) consider "k = ''phase''" | "k = ''month''" | "k = ''day''" | "k = ''year''"
    | "k = ''time''" by (auto simp: np_keys_def)
  then show ?thesis
    using assms(1,3,4)
    by cases (auto simp: np_keys_def text_to_display_def display_lines_def next_phase_line_def
                   split: option.splits)
qed

theorem next_phase_first_missing_witness:
  "text_to_display \<lparr>year = 2026, month = 11, day = 9\<rparr> (Fin 0) (Fin 0)
     \<lparr>day_of_week = PNone, current_phase = PNone, fracillum = PNone, sunrise = PNone,
      sunset = PNone, moonrise = PNone, moonset = PNone, dawn_time = PNone, dusk_time = PNone,
      next_phase = PDict [(''phase'', PStr ''Full Moon''), (''month'', PInt 11)]\<rparr> =
   Inl (KeyError (KStr ''day''))"
  using next_phase_first_missing[of
      "\<lparr>day_of_week = PNone, current_phase = PNone, fracillum = PNone, sunrise = PNone,
        sunset = PNone, moonrise = PNone, moonset = PNone, dawn_time = PNone, dusk_time = PNone,
        next_phase = PDict [(''phase'', PStr ''Full Moon''), (''month'', PInt 11)]\<rparr>"
      "[(''phase'', PStr ''Full Moon''), (''month'', PInt 11)]" "''day''"]
  by (simp add: np_keys_def)

end
