(* ===== verification/Phases.thy ===== *)
theory Phases
  imports PyValue PyStr
begin

text \<open>
  The phase-to-art selector (src/main.py): \<open>phase_to_index\<close> (lines 124-143) maps the
  service's phase name to one of eight indices, printing a warning and falling back to 0
  for an unknown name; \<open>get_moon_phases_art\<close> (lines 114-121) reads \<open>phases.txt\<close> from
  the working directory, splits it at blank-line triples and insists on exactly eight
  pieces.  The file system is a map from paths to contents.  The lemmas show that the
  index is always a valid position of an eight-element list, that every canonical name
  gets its own position, and that a file made of eight separator-free blocks loads back
  as those blocks, while any other number of blocks ends the process with status 1.
\<close>

subsection \<open>Definitions\<close>

type_synonym files = "string \<rightharpoonup> string"

definition phase_choices :: "string list" where
  "phase_choices =
     [''New Moon'', ''Waxing Crescent'', ''First Quarter'', ''Waxing Gibbous'',
      ''Full Moon'', ''Waning Gibbous'', ''Last Quarter'', ''Waning Crescent'']"

definition phase_warning :: string where
  "phase_warning = ''[red]Error: phase_to_index, Moon phase art could not be selected[/]''"

text \<open>
  \<open>phase\<close> is whatever JSON value \<open>curphase\<close> holds; \<open>phase in phase_choices\<close>
  compares it with \<open>==\<close>, which is true only for an equal \<open>str\<close>.  The result is the
  index and the lines printed.
\<close>

definition phase_to_index :: "pyval \<Rightarrow> nat \<times> string list" where
  "phase_to_index phase =
     (let choices = map PStr phase_choices in
      if phase \<in> set choices then (first_index choices phase, [])
      else (0, [phase_warning]))"

definition art_path :: string where
  "art_path = ''phases.txt''"

definition art_sep :: string where
  "art_sep = ''\<newline>\<newline>\<newline>''"

definition art_error :: string where
  "art_error = ''[red]Error loading ascii art, did not find eight pieces[/red]''"

text \<open>
  \<open>open\<close> raises \<open>FileNotFoundError\<close> for a missing file (not caught); the text is
  read in universal newlines mode, then split.
\<close>

definition get_moon_phases_art :: "files \<Rightarrow> string list proc" where
  "get_moon_phases_art fs =
     (case fs art_path of
        None \<Rightarrow> ([], Crashed (FileNotFoundError art_path))
      | Some raw \<Rightarrow>
          pbind (of_res (py_split art_sep (universal_newlines raw)))
            (\<lambda>phases. if length phases \<noteq> 8 then ([art_error], Exited 1) else ([], Done phases)))"

subsection \<open>Facts about the phase table\<close>

lemma phase_choices_length [simp]: "length phase_choices = 8"
  by (simp add: phase_choices_def)

lemma phase_choices_distinct: "distinct (map PStr phase_choices)"
  by (simp add: phase_choices_def)

lemma phase_to_index_member:
  "phase \<in> set (map PStr phase_choices) \<Longrightarrow>
   phase_to_index phase = (first_index (map PStr phase_choices) phase, [])"
  by (simp add: phase_to_index_def)

lemma phase_to_index_nonmember:
  "phase \<notin> set (map PStr phase_choices) \<Longrightarrow> phase_to_index phase = (0, [phase_warning])"
  by (simp add: phase_to_index_def)

lemma art_sep_ne [simp]: "art_sep \<noteq> []"
  by (simp add: art_sep_def)

lemma art_sep_no_cr: "CHR 0x0D \<notin> set art_sep"
  by (simp add: art_sep_def)

text \<open>A file glued from blocks without carriage returns is read unchanged.\<close>

lemma read_joined_art:
  assumes "\<forall>a \<in> set arts. CHR 0x0D \<notin> set a"
  shows "universal_newlines (py_join art_sep arts) = py_join art_sep arts"
proof (rule universal_newlines_id)
  show "CHR 0x0D \<notin> set (py_join art_sep arts)"
    using set_py_join[of art_sep arts] art_sep_no_cr assms by blast
qed

lemma load_joined_art:
  assumes "arts \<noteq> []" and "\<forall>a \<in> set arts. sep_free art_sep a \<and> CHR 0x0D \<notin> set a"
  shows "get_moon_phases_art (fs(art_path \<mapsto> py_join art_sep arts)) =
           (if length arts \<noteq> 8 then ([art_error], Exited 1) else ([], Done arts))"
proof -
  have "py_split art_sep (universal_newlines (py_join art_sep arts)) = Inr arts"
    using assms by (simp add: read_joined_art split_join)
  then show ?thesis by (simp add: get_moon_phases_art_def)
qed

subsection \<open>Properties of the selector and the loader\<close>

text \<open>C4 (roundtrip).  Each of the eight names selects its own position in the table,
  and prints nothing: the index the selector returns is the name's place in the lunar
  cycle, which is the place of its block in the art file.\<close>

theorem phase_to_index_selects:
  assumes "i < 8"
  shows "phase_to_index (PStr (phase_choices ! i)) = (i, [])"
proof -
  have "PStr (phase_choices ! i) = map PStr phase_choices ! i" using assms by simp
  moreover have "map PStr phase_choices ! i \<in> set (map PStr phase_choices)"
    using assms by (intro nth_mem) simp
  ultimately show ?thesis
    using first_index_distinct[OF phase_choices_distinct, of i] assms
    by (simp add: phase_to_index_member)
qed

theorem phase_to_index_selects_witness:
  "phase_to_index (PStr ''Full Moon'') = (4, [])"
  using phase_to_index_selects[of 4] by (simp add: phase_choices_def)

text \<open>C6 (safety).  For every JSON value, the selected index is a valid position of the
  eight blocks; a warning is printed exactly when the value is not one of the eight names,
  and then the index is 0 (the non-fatal fallback).\<close>

theorem phase_to_index_total:
  "fst (phase_to_index p) < 8 \<and>
   (snd (phase_to_index p) = [] \<longleftrightarrow> p \<in> set (map PStr phase_choices)) \<and>
   (snd (phase_to_index p) = [] \<or> phase_to_index p = (0, [phase_warning]))"
proof (cases "p \<in> set (map PStr phase_choices)")
  case True
  then show ?thesis
    using first_index_nth[of p "map PStr phase_choices"] by (simp add: phase_to_index_member)
qed (simp add: phase_to_index_nonmember)

text \<open>C5 (roundtrip).  A \<open>phases.txt\<close> written as eight blocks joined by two blank lines,
  none containing a carriage return or letting the separator start inside it, loads back as
  exactly those eight blocks.\<close>

theorem load_art_roundtrip:
  assumes "length arts = 8" and "\<forall>a \<in> set arts. sep_free art_sep a \<and> CHR 0x0D \<notin> set a"
  shows "get_moon_phases_art (fs(art_path \<mapsto> py_join art_sep arts)) = ([], Done arts)"
proof -
  from assms(1) have "arts \<noteq> []" by auto
  with assms show ?thesis by (simp add: load_joined_art)
qed

theorem load_art_roundtrip_witness:
  "get_moon_phases_art (Map.empty(art_path \<mapsto> py_join art_sep
     [''(new)'', ''(1)'', ''(2)'', ''(3)'', ''(full)'', ''(5)'', ''(6)'', ''(7)''])) =
   ([], Done [''(new)'', ''(1)'', ''(2)'', ''(3)'', ''(full)'', ''(5)'', ''(6)'', ''(7)''])"
  by (rule load_art_roundtrip) (simp_all add: sep_free_def art_sep_def)

text \<open>C17 (error).  A file of separator-free blocks in any number other than eight makes the
  loader print its error line and exit with status 1.\<close>

theorem load_art_wrong_count:
  assumes "arts \<noteq> []" and "length arts \<noteq> 8"
    and "\<forall>a \<in> set arts. sep_free art_sep a \<and> CHR 0x0D \<notin> set a"
  shows "get_moon_phases_art (fs(art_path \<mapsto> py_join art_sep arts)) = ([art_error], Exited 1)"
  using assms by (simp add: load_joined_art)

theorem load_art_wrong_count_witness:
  "get_moon_phases_art (Map.empty(art_path \<mapsto> py_join art_sep
     [''a'', ''b'', ''c'', ''d'', ''e'', ''f'', ''g''])) = ([art_error], Exited 1)"
  by (rule load_art_wrong_count) (simp_all add: sep_free_def art_sep_def)

text \<open>C18 (safety).  Whatever the working directory holds, the loader either returns
  exactly eight pieces without printing, or the process ends with status 1 (a missing file
  raises \<open>FileNotFoundError\<close>).\<close>

theorem load_art_outcome:
  "(case get_moon_phases_art fs of
      (out, Done ps) \<Rightarrow> out = [] \<and> length ps = 8
    | (out, r) \<Rightarrow> exit_status r = Some 1)"
  by (auto simp: get_moon_phases_art_def py_split_def split: option.splits outcome.splits)

end
