(* ===== verification/Program.thy ===== *)
theory Program
  imports Args Display Phases
begin

text \<open>
  The program entry \<open>main\<close> (src/main.py, lines 20-69) composed from the components:
  the help check, \<open>get_coord_args\<close>, the two requests, the two subscripts of their JSON
  answers, \<open>format_moon_data\<close>, the right pane's text, the art loader, the phase
  selector, the subscript of the art list and the layout.  The run's environment is the
  record \<open>env\<close>: the argument vector, the terminal width \<open>get_terminal_size\<close> reports,
  today's date, the network and the files.  A run is the lines printed and its outcome;
  a normal end carries the layout handed to Rich.
\<close>

subsection \<open>Definitions\<close>

record env =
  argv :: "string list"
  term_width :: int
  today :: pydate
  net :: http
  fs :: files

definition time_zone :: int where
  "time_zone = -5"

definition main :: "env \<Rightarrow> panel proc" where
  "main e =
     (if ''--help'' \<in> set (argv e) \<or> ''help'' \<in> set (argv e) then (print_usage_msg, Exited 0)
      else pbind (get_coord_args (argv e)) (\<lambda>(lat, long).
        pbind (send_request_moonsun_oneday (net e) lat long (today e) time_zone) (\<lambda>oneday_resp_json.
        pbind (send_request_moonphases (net e) (today e)) (\<lambda>phase_resp_data.
        pbind (of_res (rbind (py_getitem_str oneday_resp_json ''properties'')
                         (\<lambda>p. py_getitem_str p ''data''))) (\<lambda>oneday_data.
        pbind (of_res (py_getitem_str phase_resp_data ''phasedata'')) (\<lambda>phase_data.
        pbind (format_moon_data oneday_data phase_data) (\<lambda>data.
        pbind (of_res (text_to_display (today e) lat long data)) (\<lambda>text.
        pbind (get_moon_phases_art (fs e)) (\<lambda>moon_phases.
        pbind (of_res (py_getitem_str oneday_data ''curphase'')) (\<lambda>cp.
        pbind (case phase_to_index cp of (i, ws) \<Rightarrow> (ws, Done i)) (\<lambda>i.
        pbind (of_res (py_index moon_phases (int i))) (\<lambda>art.
          ([], Done (print_rich_console art text (term_width e) 14))))))))))))))"

subsection \<open>The specification's scenario\<close>

definition scenario_date :: pydate where
  "scenario_date = \<lparr>year = 2026, month = 11, day = 9\<rparr>"

definition scenario_arts :: "string list" where
  "scenario_arts = [''(new)'', ''(crescent)'', ''(first quarter)'', ''(gibbous)'', ''(full)'',
                    ''(waning gibbous)'', ''(last quarter)'', ''(waning crescent)'']"

definition scenario_net :: http where
  "scenario_net url =
     (if url = oneday_url (Fin (421 / 10)) (Fin (- 759 / 10)) scenario_date (-5) then
        Some \<lparr>status_code = 200,
              resp_json = Some (PDict [(''properties'', PDict [(''data'', sample_oneday)])])\<rparr>
      else if url = phases_url scenario_date then
        Some \<lparr>status_code = 200, resp_json = Some (PDict [(''phasedata'', sample_phases)])\<rparr>
      else None)"

definition scenario_env :: env where
  "scenario_env = \<lparr>argv = [''croon'', ''-c'', ''42.1,-75.9''], term_width = 80,
                    today = scenario_date, net = scenario_net,
                    fs = [art_path \<mapsto> py_join art_sep scenario_arts]\<rparr>"

text \<open>The panel the scenario is expected to print.\<close>

definition scenario_panel :: panel where
  "scenario_panel =
     \<lparr>console_height = 14, root_size = 10, left_text = CHR 0x0A # ''(first quarter)'',
      right_text = py_join ''\<newline>''
        [style @ ''Date:'' @ end_style @ '' Monday 11/9/2026'',
         style @ ''Coordinates: '' @ end_style @ ''42.1, -75.9'',
         style @ ''Current Phase:'' @ end_style @ '' First Quarter'',
         style @ ''Fracillum:'' @ end_style @ '' 52%'',
         style @ ''Next Phase: '' @ end_style @ ''Full Moon 11/24/2026 09:15'',
         style @ ''Moonrise:'' @ end_style @ '' 12:31'',
         style @ ''Moonset:'' @ end_style @ '' 23:02'',
         style @ ''Sunrise:'' @ end_style @ '' 06:41'',
         style @ ''Sunset:'' @ end_style @ '' 16:45'',
         style @ ''Dawn:'' @ end_style @ '' 06:12'',
         style @ ''Dusk:'' @ end_style @ '' 17:14''],
      left_size = 30, right_size = 50\<rparr>"

subsection \<open>Exit statuses of the components\<close>

lemma get_coord_args_exits: "exits_in {1} (get_coord_args args)"
  unfolding get_coord_args_def
  by (auto intro!: pbind_exits exits_in_case_prod split: option.splits)

lemma fetch_json_exits: "exits_in {1} (fetch_json nw url err)"
  by (simp add: fetch_json_def split: option.splits)

lemma format_moon_data_exits: "exits_in {1} (format_moon_data oneday phases)"
  by (simp add: format_moon_data_def split: sum.splits py_exc.splits)

lemma get_moon_phases_art_exits: "exits_in {1} (get_moon_phases_art files)"
  unfolding get_moon_phases_art_def by (auto intro!: pbind_exits split: option.splits)

lemma phase_step_exits: "exits_in S (case phase_to_index cp of (i, ws) \<Rightarrow> (ws, Done i))"
  by (cases "phase_to_index cp") simp

lemmas component_exits = get_coord_args_exits fetch_json_exits format_moon_data_exits
  get_moon_phases_art_exits phase_step_exits

lemma main_exits_one:
  "\<not> (''--help'' \<in> set (argv e) \<or> ''help'' \<in> set (argv e)) \<Longrightarrow> exits_in {1} (main e)"
  unfolding main_def send_request_moonsun_oneday_def send_request_moonphases_def
  by (auto intro!: pbind_exits exits_in_case_prod component_exits)

subsection \<open>What a normal run shows\<close>

lemma phase_to_index_lt: "fst (phase_to_index p) < 8"
proof (cases "p \<in> set (map PStr phase_choices)")
  case True
  then show ?thesis
    using first_index_nth[of p "map PStr phase_choices"] by (simp add: phase_to_index_member)
qed (simp add: phase_to_index_nonmember)

lemma py_index_nat: "i < length xs \<Longrightarrow> py_index xs (int i) = Inr (xs ! i)"
  by (simp add: py_index_def)

lemma loader_done:
  "snd (get_moon_phases_art files) = Done arts \<Longrightarrow>
   \<exists>raw. files art_path = Some raw \<and> py_split art_sep (universal_newlines raw) = Inr arts \<and>
         length arts = 8"
  by (auto simp: get_moon_phases_art_def of_res_def split: option.splits sum.splits if_splits)

lemma phase_art_step:
  assumes "snd (get_moon_phases_art files) = Done arts"
  shows "pbind (case phase_to_index cp of (i, ws) \<Rightarrow> (ws, Done i))
            (\<lambda>i. pbind (of_res (py_index arts (int i))) f) =
         (snd (phase_to_index cp) @ fst (f (arts ! fst (phase_to_index cp))),
          snd (f (arts ! fst (phase_to_index cp))))"
proof -
  obtain i ws where p: "phase_to_index cp = (i, ws)" by fastforce
  have "i < length arts" using loader_done[OF assms] phase_to_index_lt[of cp] p by auto
  then show ?thesis using p by (simp add: py_index_nat of_res_def pbind_def split: prod.splits)
qed

text \<open>The pieces of the specification's scenario, each evaluated on its own.\<close>

lemma scenario_coords:
  "get_coord_args [''croon'', ''-c'', ''42.1,-75.9''] = ([], Done (Fin (421 / 10), Fin (- 759 / 10)))"
proof -
  have "''42.1,-75.9'' = dec_str 421 1 @ '','' @ dec_str (-759) 1" by code_simp
  then show ?thesis
    using get_coord_args_arg[of "[''croon'']" "dec_str 421 1 @ '','' @ dec_str (-759) 1" "[]"]
    by (simp add: split_dec_pair py_float_dec_str wrap_coords_def wrap_axis_def)
qed

lemma scenario_urls_differ:
  "phases_url scenario_date \<noteq> oneday_url (Fin (421 / 10)) (Fin (- 759 / 10)) scenario_date (-5)"
  by (simp add: phases_url_def oneday_url_def phases_base_def oneday_base_def)

lemma scenario_format: "format_moon_data sample_oneday sample_phases = ([], Done sample_almanac)"
  by code_simp

lemma scenario_text:
  "text_to_display scenario_date (Fin (421 / 10)) (Fin (- 759 / 10)) sample_almanac =
   Inr (right_text scenario_panel)"
  by code_simp

lemma scenario_art: "get_moon_phases_art [art_path \<mapsto> py_join art_sep scenario_arts] = ([], Done scenario_arts)"
  by code_simp

subsection \<open>Properties of the program\<close>

text \<open>C30 (functional).  \<open>--help\<close> or \<open>help\<close> anywhere in the arguments prints the usage
  message and exits with status 0 before anything else is looked at, even a malformed
  \<open>-c\<close> argument.\<close>

theorem main_help:
  assumes "''--help'' \<in> set (argv e) \<or> ''help'' \<in> set (argv e)"
  shows "main e = (print_usage_msg, Exited 0)"
  using assms by (simp add: main_def)

theorem main_help_witness:
  "main (scenario_env\<lparr>argv := [''croon'', ''-c'', ''help'']\<rparr>) = (print_usage_msg, Exited 0)"
  using main_help[of "scenario_env\<lparr>argv := [''croon'', ''-c'', ''help'']\<rparr>"] by simp

text \<open>C31 (functional).  A run in which every step succeeds sends the one-day request for
  the parsed coordinates at zone \<open>-5\<close>, then the phase request; takes \<open>properties.data\<close>
  of the first answer and \<open>phasedata\<close> of the second to the mapper; renders the mapper's
  record at those coordinates; loads the art; and prints, after any warning of the phase
  lookup and nothing else, the panel whose left pane is art block number
  \<open>phase_to_index curphase\<close> (always in range of the eight blocks) and whose right pane is
  the rendered text, on the terminal's width and 14 rows.\<close>

theorem main_normal_run:
  assumes "''--help'' \<notin> set (argv e)" and "''help'' \<notin> set (argv e)"
    and "get_coord_args (argv e) = ([], Done (lat, long))"
    and "net e (oneday_url lat long (today e) (-5)) = Some \<lparr>status_code = 200, resp_json = Some j1\<rparr>"
    and "net e (phases_url (today e)) = Some \<lparr>status_code = 200, resp_json = Some j2\<rparr>"
    and "py_getitem_str j1 ''properties'' = Inr pr" and "py_getitem_str pr ''data'' = Inr oneday"
    and "py_getitem_str j2 ''phasedata'' = Inr phases"
    and "format_moon_data oneday phases = ([], Done data)"
    and "text_to_display (today e) lat long data = Inr text"
    and "get_moon_phases_art (fs e) = ([], Done arts)"
    and "py_getitem_str oneday ''curphase'' = Inr cp"
  shows "main e = (snd (phase_to_index cp),
                   Done (print_rich_console (arts ! fst (phase_to_index cp)) text (term_width e) 14))"
proof -
  have "snd (get_moon_phases_art (fs e)) = Done arts" using assms(11) by simp
  note art = phase_art_step[OF this, of cp]
  show ?thesis
    using assms
    by (simp add: main_def send_request_moonsun_oneday_def send_request_moonphases_def
                  fetch_json_def time_zone_def art)
qed

theorem main_normal_run_witness: "main scenario_env = ([], Done scenario_panel)"
proof -
  have cp: "phase_to_index (PStr ''First Quarter'') = (2, [])"
    by (simp add: phase_to_index_member phase_choices_def)
  have pn: "print_rich_console (scenario_arts ! 2) (right_text scenario_panel) 80 14 = scenario_panel"
    by (simp add: print_rich_console_def scenario_panel_def scenario_arts_def)
  have h1: "''--help'' \<notin> set (argv scenario_env)" and h2: "''help'' \<notin> set (argv scenario_env)"
    by (simp_all add: scenario_env_def)
  have h3: "get_coord_args (argv scenario_env) = ([], Done (Fin (421 / 10), Fin (- 759 / 10)))"
    by (simp add: scenario_env_def scenario_coords)
  have h4: "net scenario_env (oneday_url (Fin (421 / 10)) (Fin (- 759 / 10)) (today scenario_env) (-5)) =
    Some \<lparr>status_code = 200,
          resp_json = Some (PDict [(''properties'', PDict [(''data'', sample_oneday)])])\<rparr>"
    by (simp add: scenario_env_def scenario_net_def)
  have h5: "net scenario_env (phases_url (today scenario_env)) =
    Some \<lparr>status_code = 200, resp_json = Some (PDict [(''phasedata'', sample_phases)])\<rparr>"
    using scenario_urls_differ by (simp add: scenario_env_def scenario_net_def)
  have h12: "py_getitem_str sample_oneday ''curphase'' = Inr (PStr ''First Quarter'')"
    by (simp add: sample_oneday_def)
  have "text_to_display (today scenario_env) (Fin (421 / 10)) (Fin (- 759 / 10)) sample_almanac =
        Inr (right_text scenario_panel)"
    using scenario_text by (simp add: scenario_env_def)
  moreover have "get_moon_phases_art (fs scenario_env) = ([], Done scenario_arts)"
    using scenario_art by (simp add: scenario_env_def)
  ultimately show ?thesis
    using main_normal_run[OF h1 h2 h3 h4 h5 _ _ _ scenario_format _ _ h12] cp pn
    by (simp add: scenario_env_def)
qed

text \<open>C32 (safety).  Every exit of a run has status 0 or 1, and status 0 exactly when help
  was asked for: every error path of the components exits with 1.\<close>

theorem main_exit_codes:
  assumes "snd (main e) = Exited n"
  shows "n \<in> {0, 1} \<and> (n = 0 \<longleftrightarrow> ''--help'' \<in> set (argv e) \<or> ''help'' \<in> set (argv e))"
proof (cases "''--help'' \<in> set (argv e) \<or> ''help'' \<in> set (argv e)")
  case True
  with assms show ?thesis by (simp add: main_def)
next
  case False
  with main_exits_one[OF False] assms show ?thesis by (simp add: exits_in_def)
qed

theorem main_exit_codes_witness:
  "snd (main (scenario_env\<lparr>argv := [''help'']\<rparr>)) = Exited 0 \<and>
   (0::int) \<in> {0, 1} \<and> ''help'' \<in> set (argv (scenario_env\<lparr>argv := [''help'']\<rparr>))"
proof -
  have "snd (main (scenario_env\<lparr>argv := [''help'']\<rparr>)) = Exited 0" by (simp add: main_def)
  then show ?thesis using main_exit_codes[of "scenario_env\<lparr>argv := [''help'']\<rparr>" 0] by simp
qed

text \<open>C33 (error).  Without \<open>-c\<close>, a one-day request at the default coordinates that is
  answered with a status other than 200 ends the run with its error line and status 1:
  the phase request is never sent and nothing else is printed.\<close>

theorem main_oneday_failure:
  assumes "''--help'' \<notin> set (argv e)" and "''help'' \<notin> set (argv e)" and "''-c'' \<notin> set (argv e)"
    and "net e (oneday_url (Fin (421 / 10)) (Fin (- 759 / 10)) (today e) (-5)) = Some r"
    and "status_code r \<noteq> 200"
  shows "main e = ([oneday_error], Exited 1)"
  using assms
  by (simp add: main_def get_coord_args_def default_coords_def send_request_moonsun_oneday_def
                fetch_json_def time_zone_def)

theorem main_oneday_failure_witness:
  "main (scenario_env\<lparr>argv := [''croon''], net := (\<lambda>u. Some \<lparr>status_code = 500, resp_json = None\<rparr>)\<rparr>) =
   ([oneday_error], Exited 1)"
  using main_oneday_failure[of
      "scenario_env\<lparr>argv := [''croon''], net := (\<lambda>u. Some \<lparr>status_code = 500, resp_json = None\<rparr>)\<rparr>"
      "\<lparr>status_code = 500, resp_json = None\<rparr>"]
  by simp

text \<open>C34 (error).  The phase request is sent and its answer checked before the one-day
  answer is looked into: when the one-day answer has no \<open>properties\<close>, a failed phase
  request still ends the run with its own error line and status 1, an answer that is not
  JSON with \<open>JSONDecodeError\<close>, and only a good phase answer lets the run reach the
  uncaught \<open>KeyError\<close> on \<open>properties\<close>.\<close>

theorem main_missing_properties:
  assumes "''--help'' \<notin> set (argv e)" and "''help'' \<notin> set (argv e)" and "''-c'' \<notin> set (argv e)"
    and "net e (oneday_url (Fin (421 / 10)) (Fin (- 759 / 10)) (today e) (-5)) =
           Some \<lparr>status_code = 200, resp_json = Some (PDict kvs)\<rparr>"
    and "map_of kvs ''properties'' = None"
    and "net e (phases_url (today e)) = Some r2"
  shows "main e = (if status_code r2 \<noteq> 200 then ([phases_error], Exited 1)
                   else case resp_json r2 of
                          None \<Rightarrow> ([], Crashed JSONDecodeError)
                        | Some v \<Rightarrow> ([], Crashed (KeyError (KStr ''properties''))))"
  using assms
  by (simp add: main_def get_coord_args_def default_coords_def send_request_moonsun_oneday_def
                send_request_moonphases_def fetch_json_def time_zone_def split: option.split)

theorem main_missing_properties_witness:
  "main (scenario_env\<lparr>argv := [''croon''],
           net := (\<lambda>u. Some \<lparr>status_code = 200, resp_json = Some (PDict [])\<rparr>)\<rparr>) =
   ([], Crashed (KeyError (KStr ''properties'')))"
  using main_missing_properties[of
      "scenario_env\<lparr>argv := [''croon''],
         net := (\<lambda>u. Some \<lparr>status_code = 200, resp_json = Some (PDict [])\<rparr>)\<rparr>" "[]"
      "\<lparr>status_code = 200, resp_json = Some (PDict [])\<rparr>"]
  by simp

end
