(* ===== verification/Spec2Isabelle.thy ===== *)
theory Spec2Isabelle
  imports Program
begin

text \<open>
  \<^bold>\<open>A verification development of croon.\<close>
  croon (src/main.py) prints a two-pane terminal panel with the moon's phase as ASCII art
  and the day's solar and lunar times, fetched from the US Navy almanac service.  Its
  parts, in the order \<open>main\<close> (lines 20-69) runs them: argument scanning and
  \<open>get_coord_args\<close> (72-90) with the coordinate normaliser \<open>wrap_coords\<close> (93-106);
  two HTTP requests (\<open>send_request_moonsun_oneday\<close>, 146-162, and
  \<open>send_request_moonphases\<close>, 165-178); the record mapper \<open>format_moon_data\<close>
  (196-235) over the two JSON answers; the text lines of the right pane (44-60); the art
  loader \<open>get_moon_phases_art\<close> (114-121) and selector \<open>phase_to_index\<close> (124-143);
  and the Rich layout \<open>print_rich_console\<close> (181-193).  The parts share no state: each
  is called once, passes its result to the next, and ends the process on failure, either
  by \<open>exit(1)\<close> or by an exception nothing catches.

  \<^bold>\<open>Library.\<close>
  \<^item> \<open>Prelude\<close>: Python exceptions (\<open>py_exc\<close>), results \<open>'a res = py_exc + 'a\<close> with
    \<open>rbind\<close>, the loop combinator \<open>res_fold\<close> (a \<open>for\<close> loop whose body may raise),
    and process outcomes \<open>'a proc\<close> (printed lines with \<open>Done\<close>, \<open>Exited n\<close> for
    \<open>exit(n)\<close>, or \<open>Crashed e\<close> for an uncaught exception, exit status 1).
  \<^item> \<open>PyValue\<close>: Python floats as \<open>pyfloat\<close> (an exact real, or \<open>inf\<close>, \<open>-inf\<close>,
    \<open>nan\<close>), CPython's float \<open>%\<close> as \<open>float_rem\<close>, proved equal to
    \<open>x - floor(x / y) * y\<close> (\<open>float_rem_floor_mod\<close>); JSON values as \<open>pyval\<close> with
    subscription and iteration and the exceptions they raise.
  \<^item> \<open>PyStr\<close>: \<open>str.split\<close>, \<open>str.join\<close>, the substring test, \<open>list.index\<close> and
    universal newlines, with the split/join round trip.
  \<^item> \<open>PyFloatStr\<close>: Python's \<open>float()\<close> on a string as \<open>py_float\<close> (strip,
    underscores between digits, sign, \<open>inf\<close>/\<open>infinity\<close>/\<open>nan\<close> in any case, decimal
    mantissa and exponent, overflow to \<open>inf\<close> past the largest double), and the decimal
    printer \<open>dec_str\<close> it is proved to invert (\<open>py_float_dec_str\<close>).
  \<^item> \<open>Coords\<close>: \<open>wrap_axis\<close> (one axis of \<open>wrap_coords\<close>) and \<open>wrap_coords\<close>.
  \<^item> \<open>Phases\<close>: \<open>phase_choices\<close>, \<open>phase_to_index\<close> (returning the index and the
    printed lines), \<open>get_moon_phases_art\<close> over a file map \<open>files\<close>.
  \<^item> \<open>Mapper\<close>: the locals of \<open>format_moon_data\<close> as the record \<open>fmt_locals\<close>
    (an unassigned local is \<open>None\<close>), one step function per loop (\<open>sun_step\<close>,
    \<open>moon_step\<close>), the \<open>try\<close> body \<open>format_try_block\<close> evaluated in the source's
    order, the output dict as the record \<open>almanac\<close>, and \<open>format_moon_data\<close> with its
    \<open>except KeyError\<close> handler.  The specification of the loops is \<open>phen_time\<close>: the
    time of the last event of a name.
  \<^item> \<open>Args\<close>: \<open>get_coord_args\<close> as a process result, with \<open>default_coords\<close>, the tuple
    unpacking \<open>unpack2\<close> and the bad-number message \<open>float_error\<close>.
  \<^item> \<open>PyRepr\<close>: \<open>str()\<close> and \<open>repr()\<close> as f-strings use them: \<open>int_str\<close>,
    \<open>float_repr\<close> (positional form, or scientific when the decimal exponent is below -4
    or at least 16; \<open>.0\<close> on integral values), \<open>str_repr\<close> with its quotes and escapes,
    \<open>py_repr\<close>/\<open>py_str\<close> of JSON values.  \<open>float(repr(x)) = x\<close> is proved for both
    forms (\<open>float_repr_roundtrip\<close>).
  \<^item> \<open>Client\<close>: \<open>send_request_moonsun_oneday\<close> and \<open>send_request_moonphases\<close>
    (their URLs \<open>oneday_url\<close>, \<open>phases_url\<close>, the shared \<open>fetch_json\<close> with the status
    check) over a network \<open>http\<close> from URLs to responses; \<open>url_params\<close> is the
    service's reading of a URL.
  \<^item> \<open>Display\<close>: Rich's markup scanner \<open>tag_scan\<close> with \<open>markup_plain\<close> (the text a
    reader sees) and \<open>rich_escape\<close>; \<open>print_usage_msg\<close>; the right pane
    (\<open>next_phase_line\<close>, \<open>display_lines\<close>, \<open>text_to_display\<close>); the layout record
    \<open>panel\<close> built by \<open>print_rich_console\<close>.
  \<^item> \<open>Program\<close>: the environment record \<open>env\<close> and \<open>main\<close>, composing all of the
    above in the source's order with \<open>pbind\<close>; the specification's scenario
    (\<open>scenario_env\<close>, \<open>scenario_panel\<close>), evaluated piece by piece.
  \<^item> This theory: the properties that span the mapper and the value model (C14), and
    the selector and a lookup table (C24).

  \<^bold>\<open>What is proved.\<close>
  The mapper returns the record the specification describes on well-formed answers (C1),
  its loops refine \<open>phen_time\<close> (C7) and do not interfere (C8), and on each malformed
  answer the outcome is fixed: a missing phenomenon, an empty phase list or a non-object
  event escape the handler as uncaught exceptions (C2, C12, C13), a missing key is
  handled (C11); every value it returns from well-formed answers is well formed (C14, in
  this theory, over the mapper's and the value model's lemmas).  The normaliser keeps
  finite coordinates in range (C3), is Python's modulo on each branch (C9), fixes valid
  coordinates (C10), lets \<open>nan\<close> and \<open>inf\<close> out of range (C15) and sends latitudes just
  past a pole to the other hemisphere (C16).  The selector gives each of the eight names
  its own position (C4) and every value a valid index, warning exactly on unknown names
  (C6); its two list scans equal one lookup in a name-to-index table (C24, in this
  theory).  The art file round-trips through join and split (C5); any other block count
  exits with status 1 (C17); every run of the loader gives eight pieces or status 1
  (C18).  The argument reader reads any decimal \<open>LAT,LONG\<close> as its two numbers (C19),
  returns the default 42.1, -75.9, which is in range, without \<open>-c\<close> (C20), crashes with
  \<open>IndexError\<close> on a trailing \<open>-c\<close> (C21) and with \<open>ValueError\<close> on a wrong number of
  parts (C22), and prints the bad-number message on a non-number (C23).  The one-day URL
  carries the coordinates so that the service reads back exactly the program's numbers
  (C25); the phases URL carries \<open>nump=2\<close> and a date that reads back (C26); a status
  other than 200 exits with the message (C27).  The right pane is the eleven labelled
  lines in order (C28), and a missing next-phase key is reported in the order the code
  reads them (C29).  For the whole program: help exits 0 first (C30); a run in which every
  step succeeds prints the panel of the selected art block (always in range) and the
  rendered text, after only the selector's warning (C31), and the specification's
  scenario is its witness; every exit status is 0 or 1, 0 exactly for help (C32); a
  failed first request ends the run before the second (C33); the phase answer is checked
  before the one-day answer is looked into (C34).

  \<^bold>\<open>Modelling choices.\<close>
  Floats are exact reals: rounding to doubles and the sign of zero are not modelled
  (rounding is monotone and the bounds \<open>\<plusminus>90\<close>, \<open>\<plusminus>180\<close> are doubles, so the range
  results survive it).  Strings are character lists; croon's inputs are ASCII.  A JSON
  document is the value \<open>json.loads\<close> returns; parsing it is not modelled.  The loops are
  structural recursions over the event lists and strings, so every definition is total and
  executable.  The one search with fuel is \<open>dec_places\<close> in \<open>float_repr\<close>: it looks for
  the number of decimal places up to 1074, which is enough for every finite double (a
  multiple of \<open>2^-1074\<close>, hence of \<open>10^-1074\<close>); \<open>dec_places_least\<close> shows that it then
  finds the least count.  The network is a function from URLs to responses: no response
  is \<open>ConnectionError\<close>, a body that is not JSON is \<open>JSONDecodeError\<close>; a server that never
  answers (there is no timeout) is not modelled.  Printed lines are the markup strings passed to \<open>print\<close> or
  \<open>rprint\<close>; Rich's rendering of them is not modelled.  \<open>float()\<close> is modelled on
  exact reals: its rounding to the nearest double is not, and the overflow threshold
  \<open>2^1024 - 2^970\<close> is the point from which rounding gives \<open>inf\<close>.

  \<^bold>\<open>Not modelled.\<close>
  The network and file system themselves (they are parameters of the run);
  \<open>get_terminal_size\<close>'s own lookup (its result is a parameter) and \<open>date.today\<close>;
  \<open>json.loads\<close> parsing; Rich's painting of the layout and its styles (only the plain
  text of markup is modelled); rounding of floats to doubles, signed zero and underflow;
  the unused \<open>params\<close> dict of \<open>send_request_moonsun_oneday\<close>, which has no effect.
\<close>

subsection \<open>Definitions for the cross-component properties\<close>




subsection \<open>Well-formed values stay well formed\<close>










subsection \<open>The phase table\<close>





subsection \<open>Properties that span components\<close>




end
